theory Spec2Isabelle
  imports Main
begin

section \<open>Text positions and ranges\<close>

text \<open>
  The editor's text buffer is an external collaborator of \<^verbatim>\<open>contextUtil.ts\<close>. A document
  is modelled by its text, a string of the lines of the document joined by its line end,
  which is a line feed or a carriage return and a line feed: a line ends at a line feed,
  and a carriage return just before it belongs to the line end, not to the line. A
  position is a zero-based (line, character) pair; a range is a pair of positions.
\<close>

record position =
  line :: nat
  character :: nat

record range =
  start :: position
  endp :: position

definition NEW_LINE :: char where
  "NEW_LINE = CHR 0x0A"

definition CARRIAGE_RETURN :: char where
  "CARRIAGE_RETURN = CHR 0x0D"

definition isBefore :: "position \<Rightarrow> position \<Rightarrow> bool" where
  "isBefore p q = (line p < line q \<or> (line p = line q \<and> character p < character q))"

definition isEqual :: "position \<Rightarrow> position \<Rightarrow> bool" where
  "isEqual p q = (line p = line q \<and> character p = character q)"

definition isBeforeOrEqual :: "position \<Rightarrow> position \<Rightarrow> bool" where
  "isBeforeOrEqual p q = (isBefore p q \<or> isEqual p q)"

text \<open>The constructor of a range orders its two positions.\<close>

definition Range :: "position \<Rightarrow> position \<Rightarrow> range" where
  "Range a b = (if isBefore b a then \<lparr>start = b, endp = a\<rparr> else \<lparr>start = a, endp = b\<rparr>)"

text \<open>\<^verbatim>\<open>range.contains(positionOrRange)\<close>: boundaries included.\<close>

definition containsPosition :: "range \<Rightarrow> position \<Rightarrow> bool" where
  "containsPosition r p = (\<not> isBefore p (start r) \<and> \<not> isBefore (endp r) p)"

definition containsRange :: "range \<Rightarrow> range \<Rightarrow> bool" where
  "containsRange r other = (containsPosition r (start other) \<and> containsPosition r (endp other))"

text \<open>
  \<^verbatim>\<open>document.positionAt(offset)\<close>: the offset is clamped to the text; the line is the number
  of line feeds before the offset, the character the distance to the last of them, but no
  more than the length of the line: the offset between the carriage return and the line
  feed of a line end gives the position of the end of the line.
\<close>

definition positionAt :: "string \<Rightarrow> nat \<Rightarrow> position" where
  "positionAt text offset =
     (let pre = take offset text;
          column = length (takeWhile (\<lambda>c. c \<noteq> NEW_LINE) (rev pre))
      in \<lparr>line = length (filter (\<lambda>c. c = NEW_LINE) pre),
          character =
            (if 0 < column \<and> offset < length text \<and> text ! offset = NEW_LINE
                \<and> text ! (offset - 1) = CARRIAGE_RETURN
             then column - 1 else column)\<rparr>)"

text \<open>
  \<^verbatim>\<open>document.offsetAt(position)\<close>: a character beyond the end of its line stops at the
  line's end, a line beyond the last one gives the end of the text.
\<close>

fun offsetAt :: "string \<Rightarrow> position \<Rightarrow> nat" where
  "offsetAt [] p = 0"
| "offsetAt (x # xs) p =
     (if line p = 0 then
        (if character p = 0 \<or> x = NEW_LINE
            \<or> (x = CARRIAGE_RETURN \<and> take 1 xs = [NEW_LINE]) then 0
         else Suc (offsetAt xs (p\<lparr>character := character p - 1\<rparr>)))
      else Suc (offsetAt xs (if x = NEW_LINE then p\<lparr>line := line p - 1\<rparr> else p)))"

text \<open>\<^verbatim>\<open>documentText.charAt(offset)\<close>: the empty string outside the text.\<close>

definition charAt :: "string \<Rightarrow> nat \<Rightarrow> string" where
  "charAt text offset = (if offset < length text then [text ! offset] else [])"

text \<open>\<^verbatim>\<open>isInRanges\<close>, for a range and for a position.\<close>

definition isInRanges :: "range list \<Rightarrow> range \<Rightarrow> bool" where
  "isInRanges ranges r = list_ex (\<lambda>x. containsRange x r) ranges"

definition isPositionInRanges :: "range list \<Rightarrow> position \<Rightarrow> bool" where
  "isPositionInRanges ranges p = list_ex (\<lambda>x. containsPosition x p) ranges"

section \<open>invertRanges\<close>

text \<open>
  The \<^verbatim>\<open>forEach\<close> of \<^verbatim>\<open>invertRanges\<close>, with \<^verbatim>\<open>previousEndPosition\<close> and
  \<^verbatim>\<open>invertedRanges\<close> passed along. A range that starts at \<^verbatim>\<open>previousEndPosition\<close> moves
  it to the range's end; any other range pushes the gap before it and leaves
  \<^verbatim>\<open>previousEndPosition\<close> where it was.
\<close>

fun invertRangesLoop :: "position \<Rightarrow> range list \<Rightarrow> range list \<Rightarrow> position \<times> range list" where
  "invertRangesLoop previousEndPosition invertedRanges [] = (previousEndPosition, invertedRanges)"
| "invertRangesLoop previousEndPosition invertedRanges (r # rs) =
     (if isEqual previousEndPosition (start r)
      then invertRangesLoop (endp r) invertedRanges rs
      else invertRangesLoop previousEndPosition
             (invertedRanges @ [Range previousEndPosition (start r)]) rs)"

definition invertRanges :: "string \<Rightarrow> range list \<Rightarrow> range list" where
  "invertRanges document ranges =
     (let documentEndPosition = positionAt document (length document);
          (previousEndPosition, invertedRanges) =
             invertRangesLoop \<lparr>line = 0, character = 0\<rparr> [] ranges
      in if \<not> isEqual previousEndPosition documentEndPosition
         then invertedRanges @ [Range previousEndPosition documentEndPosition]
         else invertedRanges)"

section \<open>Component path resolution\<close>

text \<open>
  \<^verbatim>\<open>componentPathToUri\<close> of \<^verbatim>\<open>component.ts\<close>. The cache, the file system, the workspace and
  the path library are external: they are the fields of the environment. A Uri is modelled
  by its file-system path. \<^verbatim>\<open>workspace.getWorkspaceFolder\<close> gives the root path of the
  workspace folder that contains a Uri, or nothing (\<^verbatim>\<open>undefined\<close>) for a file outside
  every workspace folder; reading \<^verbatim>\<open>root.uri\<close> of \<^verbatim>\<open>undefined\<close> throws a TypeError.
  (\<open>IllegalArgument\<close> is the error of the editor's position and range constructors.)
\<close>

datatype error = TypeError | IllegalArgument

record resolverEnv =
  cachedComponentPathToUri :: "string \<Rightarrow> string \<Rightarrow> string option"
  existsSync :: "string \<Rightarrow> bool"
  getWorkspaceFolder :: "string \<Rightarrow> string option"
  pathSep :: string
  pathDirname :: "string \<Rightarrow> string"
  pathJoin :: "string \<Rightarrow> string \<Rightarrow> string"

definition COMPONENT_EXT :: string where
  "COMPONENT_EXT = ''.cfc''"

text \<open>\<^verbatim>\<open>dotPath.replace(/\./g, path.sep)\<close>\<close>

definition replaceDots :: "string \<Rightarrow> string \<Rightarrow> string" where
  "replaceDots sep dotPath = concat (map (\<lambda>c. if c = CHR ''.'' then sep else [c]) dotPath)"

definition componentPathToUri :: "resolverEnv \<Rightarrow> string \<Rightarrow> string \<Rightarrow> error + string option" where
  "componentPathToUri env dotPath baseUri =
     (case cachedComponentPathToUri env dotPath baseUri of
        Some cachedResult \<Rightarrow> Inr (Some cachedResult)
      | None \<Rightarrow>
          (let normalizedPath = replaceDots (pathSep env) dotPath @ COMPONENT_EXT;
               baseDir = pathDirname env baseUri;
               localPath = pathJoin env baseDir normalizedPath
           in if existsSync env localPath then Inr (Some localPath)
              else (case getWorkspaceFolder env baseUri of
                      None \<Rightarrow> Inl TypeError
                    | Some root \<Rightarrow>
                        (let rootPath = pathJoin env root normalizedPath
                         in if existsSync env rootPath then Inr (Some rootPath)
                            else Inr None))))"

section \<open>Component declaration parsing\<close>

text \<open>
  A JavaScript value, as far as \<^verbatim>\<open>parseComponent\<close> stores one in a property: a component
  and its attribute set are objects, modelled as lists of properties in insertion order.
  The results of the external parsers (properties, functions, variables) are opaque.
\<close>

datatype jsValue =
    JUndefined
  | JNull
  | JBool bool
  | JString string
  | JUri string
  | JUris "string list"
  | JRange range
  | JFunctions "(string \<times> range) list"
  | JOpaque string

type_synonym jsObject = "(string \<times> jsValue) list"

fun truthy :: "jsValue \<Rightarrow> bool" where
  "truthy JUndefined = False"
| "truthy JNull = False"
| "truthy (JBool b) = b"
| "truthy (JString s) = (s \<noteq> [])"
| "truthy _ = True"

definition getProp :: "jsObject \<Rightarrow> string \<Rightarrow> jsValue" where
  "getProp obj k = (case map_of obj k of None \<Rightarrow> JUndefined | Some v \<Rightarrow> v)"

fun setProp :: "('k \<times> 'v) list \<Rightarrow> 'k \<Rightarrow> 'v \<Rightarrow> ('k \<times> 'v) list" where
  "setProp [] k v = [(k, v)]"
| "setProp (p # ps) k v = (if fst p = k then (k, v) # ps else p # setProp ps k v)"

definition getOwnPropertyNames :: "jsObject \<Rightarrow> string list" where
  "getOwnPropertyNames obj = map fst obj"

text \<open>\<^verbatim>\<open>Object.assign(target, source)\<close>\<close>

definition objectAssign :: "jsObject \<Rightarrow> jsObject \<Rightarrow> jsObject" where
  "objectAssign target source = fold (\<lambda>(k, v) t. setProp t k v) source target"

definition booleanAttributes :: "string list" where
  "booleanAttributes =
     [''accessors'', ''autoindex'', ''indexable'', ''mappedsuperclass'', ''output'',
      ''persistent'', ''rest'', ''serializable'']"

record docBlockKeyValue =
  key :: string
  docValue :: string
  docValueRange :: range

record attribute =
  attrValue :: string
  attrValueRange :: range

text \<open>
  \<^verbatim>\<open>processDocBlock\<close> and \<^verbatim>\<open>processAttributes\<close>; \<^verbatim>\<open>DataType.isTruthy\<close> is external and
  passed in.
\<close>

definition processDocBlock :: "(string \<Rightarrow> bool) \<Rightarrow> docBlockKeyValue list \<Rightarrow> jsObject" where
  "processDocBlock isTruthy docBlock =
     fold (\<lambda>docElem docBlockObj.
             (let activeKey = key docElem
              in if activeKey \<in> set booleanAttributes
                 then setProp docBlockObj activeKey (JBool (isTruthy (docValue docElem)))
                 else setProp docBlockObj activeKey (JString (docValue docElem))))
          docBlock []"

definition processAttributes :: "(string \<Rightarrow> bool) \<Rightarrow> (string \<times> attribute) list \<Rightarrow> jsObject" where
  "processAttributes isTruthy attributes =
     fold (\<lambda>(attrKey, attr) attributeObj.
             (if attrKey \<in> set booleanAttributes
              then setProp attributeObj attrKey (JBool (isTruthy (attrValue attr)))
              else setProp attributeObj attrKey (JString (attrValue attr))))
          attributes []"

text \<open>\<^verbatim>\<open>String.prototype.split(",")\<close> and \<^verbatim>\<open>trim\<close>.\<close>

fun splitOn :: "char \<Rightarrow> string \<Rightarrow> string \<Rightarrow> string list" where
  "splitOn sep acc [] = [rev acc]"
| "splitOn sep acc (c # cs) =
     (if c = sep then rev acc # splitOn sep [] cs else splitOn sep (c # acc) cs)"

definition isWhitespace :: "char \<Rightarrow> bool" where
  "isWhitespace c = (c \<in> set [CHR 0x09, CHR 0x0A, CHR 0x0B, CHR 0x0C, CHR 0x0D, CHR 0x20, CHR 0xA0])"

definition trim :: "string \<Rightarrow> string" where
  "trim s = rev (dropWhile isWhitespace (rev (dropWhile isWhitespace s)))"

text \<open>
  The body of \<^verbatim>\<open>componentAttributes.implements.split(",").forEach\<close>: each resolved Uri is
  pushed on \<^verbatim>\<open>component.implements\<close>, created on the first push.
\<close>

fun applyImplements :: "resolverEnv \<Rightarrow> string \<Rightarrow> string list \<Rightarrow> jsObject \<Rightarrow> error + jsObject" where
  "applyImplements env documentUri [] component = Inr component"
| "applyImplements env documentUri (element # elements) component =
     (case componentPathToUri env (trim element) documentUri of
        Inl e \<Rightarrow> Inl e
      | Inr None \<Rightarrow> applyImplements env documentUri elements component
      | Inr (Some implementsUri) \<Rightarrow>
          applyImplements env documentUri elements
            (case getProp component ''implements'' of
               JUris uris \<Rightarrow> setProp component ''implements'' (JUris (uris @ [implementsUri]))
             | _ \<Rightarrow> setProp component ''implements'' (JUris [implementsUri])))"

text \<open>
  The body of \<^verbatim>\<open>Object.getOwnPropertyNames(component).forEach\<close>, for one property name
  of the component.
\<close>

definition applyAttribute ::
  "resolverEnv \<Rightarrow> string \<Rightarrow> jsObject \<Rightarrow> string \<Rightarrow> jsObject \<Rightarrow> error + jsObject" where
  "applyAttribute env documentUri componentAttributes propName component =
     (if truthy (getProp componentAttributes propName) then
        (if propName = ''extends'' then
           (case getProp componentAttributes ''extends'' of
              JString dotPath \<Rightarrow>
                (case componentPathToUri env dotPath documentUri of
                   Inl e \<Rightarrow> Inl e
                 | Inr None \<Rightarrow> Inr (setProp component ''extends'' JUndefined)
                 | Inr (Some u) \<Rightarrow> Inr (setProp component ''extends'' (JUri u)))
            | _ \<Rightarrow> Inl TypeError)
         else if propName = ''implements'' then
           (case getProp componentAttributes ''implements'' of
              JString s \<Rightarrow> applyImplements env documentUri (splitOn CHR '','' [] s) component
            | _ \<Rightarrow> Inl TypeError)
         else if propName = ''persistent'' \<and> truthy (getProp componentAttributes ''persistent'') then
           Inr (setProp component ''accessors'' (JBool True))
         else Inr (setProp component propName (getProp componentAttributes propName)))
      else Inr component)"

fun applyAttributes ::
  "resolverEnv \<Rightarrow> string \<Rightarrow> jsObject \<Rightarrow> string list \<Rightarrow> jsObject \<Rightarrow> error + jsObject" where
  "applyAttributes env documentUri componentAttributes [] component = Inr component"
| "applyAttributes env documentUri componentAttributes (propName # propNames) component =
     (case applyAttribute env documentUri componentAttributes propName component of
        Inl e \<Rightarrow> Inl e
      | Inr component' \<Rightarrow> applyAttributes env documentUri componentAttributes propNames component')"

text \<open>
  \<^verbatim>\<open>parseComponent\<close>. The match of \<^verbatim>\<open>COMPONENT_PATTERN\<close> (its index and groups), the
  doc-block, attribute, property, function and variable parsers, \<^verbatim>\<open>DataType.isTruthy\<close>
  and \<^verbatim>\<open>path.basename\<close> are external and passed in.
\<close>

record textDocument =
  docText :: string
  docUri :: string
  docFileName :: string

record componentMatch =
  matchIndex :: nat
  head :: string
  attributePrefix :: string
  fullPrefix :: "string option"
  componentDoc :: "string option"
  checkTag :: "string option"
  componentType :: string
  componentAttr :: string

record userFunction =
  functionName :: string
  functionRange :: range

record externals =
  resolver :: resolverEnv
  isTruthy :: "string \<Rightarrow> bool"
  pathBasename :: "string \<Rightarrow> string \<Rightarrow> string"
  componentPatternExec :: "string \<Rightarrow> componentMatch option"
  parseDocBlock :: "textDocument \<Rightarrow> range \<Rightarrow> docBlockKeyValue list"
  parseAttributes :: "textDocument \<Rightarrow> range \<Rightarrow> (string \<times> attribute) list"
  parseProperties :: "textDocument \<Rightarrow> jsValue"
  parseFunctions :: "textDocument \<Rightarrow> userFunction list"
  parseVariables :: "textDocument \<Rightarrow> bool \<Rightarrow> range \<Rightarrow> jsValue"

text \<open>\<^verbatim>\<open>getComponentNameFromDotPath\<close>: the last segment of a dot path.\<close>

definition getComponentNameFromDotPath :: "string \<Rightarrow> string" where
  "getComponentNameFromDotPath path = last (splitOn CHR ''.'' [] path)"

definition translate :: "position \<Rightarrow> nat \<Rightarrow> position" where
  "translate p characterDelta = p\<lparr>character := character p + characterDelta\<rparr>"

definition extendsRangeOf :: "string \<Rightarrow> range \<Rightarrow> range" where
  "extendsRangeOf v valueRange =
     Range (translate (start valueRange) (length v - length (getComponentNameFromDotPath v)))
           (endp valueRange)"

definition strTruthy :: "string option \<Rightarrow> bool" where
  "strTruthy s = (case s of None \<Rightarrow> False | Some t \<Rightarrow> t \<noteq> [])"

definition strLength :: "string option \<Rightarrow> nat" where
  "strLength s = (case s of None \<Rightarrow> 0 | Some t \<Rightarrow> length t)"

text \<open>
  \<^verbatim>\<open>toLowerCase\<close> on the characters with codes 0 to 255: the letters \<^verbatim>\<open>A\<close> to \<^verbatim>\<open>Z\<close> and the
  capital letters of Latin-1 (codes 192 to 222 but for the multiplication sign 215) move to
  the lower-case letters 32 codes above them.
\<close>

definition toLowerCase :: "string \<Rightarrow> string" where
  "toLowerCase s =
     map (\<lambda>c. if ((65::nat) \<le> of_char c \<and> of_char c \<le> (90::nat))
                 \<or> ((192::nat) \<le> of_char c \<and> of_char c \<le> (222::nat)
                     \<and> of_char c \<noteq> (215::nat))
              then char_of (of_char c + (32::nat)) else c) s"

text \<open>The function loop: the earliest start of a function and the functions by lower-cased name.\<close>

fun collectFunctions ::
  "userFunction list \<Rightarrow> position \<Rightarrow> (string \<times> range) list \<Rightarrow> position \<times> (string \<times> range) list" where
  "collectFunctions [] earliest fs = (earliest, fs)"
| "collectFunctions (compFun # rest) earliest fs =
     collectFunctions rest
       (if isBefore (start (functionRange compFun)) earliest
        then start (functionRange compFun) else earliest)
       (setProp fs (toLowerCase (functionName compFun)) (functionRange compFun))"

definition parseComponent :: "externals \<Rightarrow> textDocument \<Rightarrow> error + jsObject option" where
  "parseComponent ext document =
     (let documentText = docText document
      in case componentPatternExec ext documentText of
        None \<Rightarrow> Inr None
      | Some componentMatch \<Rightarrow>
          (let componentIsScript = \<not> strTruthy (checkTag componentMatch);
               declarationStartOffset =
                 matchIndex componentMatch
                 + (if strTruthy (fullPrefix componentMatch) then strLength (fullPrefix componentMatch) else 0)
                 + (if strTruthy (checkTag componentMatch) then strLength (checkTag componentMatch) else 0);
               component0 =
                 [(''uri'', JUri (docUri document)),
                  (''name'', JString (pathBasename ext (docFileName document) COMPONENT_EXT)),
                  (''isScript'', JBool componentIsScript),
                  (''isInterface'', JBool (componentType componentMatch = ''interface'')),
                  (''declarationRange'',
                     JRange (Range (positionAt documentText declarationStartOffset)
                                   (positionAt documentText
                                      (declarationStartOffset + length (componentType componentMatch))))),
                  (''displayname'', JString []),
                  (''hint'', JString []),
                  (''extends'', JNull),
                  (''implements'', JNull),
                  (''accessors'', JBool False),
                  (''functions'', JFunctions []),
                  (''properties'', parseProperties ext document),
                  (''variables'', JOpaque [])];
               (attributes1, component1) =
                 (if strTruthy (componentDoc componentMatch) then
                    (let parsedDocBlock =
                           parseDocBlock ext document
                             (Range (positionAt documentText (matchIndex componentMatch + 3))
                                    (positionAt documentText
                                       (matchIndex componentMatch + 3
                                        + strLength (componentDoc componentMatch))))
                     in (objectAssign [] (processDocBlock (isTruthy ext) parsedDocBlock),
                         fold (\<lambda>docAttr c.
                                 setProp c ''extendsRange''
                                   (JRange (extendsRangeOf (docValue docAttr) (docValueRange docAttr))))
                              (filter (\<lambda>docAttribute. key docAttribute = ''extends'') parsedDocBlock)
                              component0))
                  else ([], component0));
               (attributes2, component2) =
                 (if componentAttr componentMatch \<noteq> [] then
                    (let componentAttributePrefixOffset =
                           matchIndex componentMatch + length (attributePrefix componentMatch);
                         componentAttributeRange =
                           Range (positionAt documentText componentAttributePrefixOffset)
                                 (positionAt documentText
                                    (componentAttributePrefixOffset + length (componentAttr componentMatch)));
                         parsedAttributes = parseAttributes ext document componentAttributeRange
                     in (objectAssign attributes1 (processAttributes (isTruthy ext) parsedAttributes),
                         (case map_of parsedAttributes ''extends'' of
                            None \<Rightarrow> component1
                          | Some extendsAttr \<Rightarrow>
                              setProp component1 ''extendsRange''
                                (JRange (extendsRangeOf (attrValue extendsAttr)
                                           (attrValueRange extendsAttr))))))
                  else (attributes1, component1))
           in case applyAttributes (resolver ext) (docUri document) attributes2
                     (getOwnPropertyNames component2) component2 of
                Inl e \<Rightarrow> Inl e
              | Inr component3 \<Rightarrow>
                  (let (earliestFunctionRangeStart, componentFunctions) =
                         collectFunctions (parseFunctions ext document)
                           (positionAt documentText (length documentText)) [];
                       component4 = setProp component3 ''functions'' (JFunctions componentFunctions);
                       componentDefinitionRange =
                         Range (positionAt documentText (length (head componentMatch)))
                               earliestFunctionRangeStart
                   in Inr (Some (setProp component4 ''variables''
                                   (parseVariables ext document componentIsScript
                                      componentDefinitionRange))))))"

subsection \<open>The tag component of the specification's scenario\<close>

text \<open>
  The document \<^verbatim>\<open><cfcomponent extends="pkg.Base" persistent="true"></cfcomponent>\<close> in the
  file \<^verbatim>\<open>/ws/app/Thing.cfc\<close> of the workspace folder \<^verbatim>\<open>/ws\<close>, where no component file
  \<^verbatim>\<open>pkg/Base.cfc\<close> exists: the match of \<^verbatim>\<open>COMPONENT_PATTERN\<close> on it, and the two attributes
  the attribute parser finds in its head.
\<close>

definition scenarioResolver :: resolverEnv where
  "scenarioResolver =
     \<lparr>cachedComponentPathToUri = (\<lambda>dotPath baseUri. None),
      existsSync = (\<lambda>path. False),
      getWorkspaceFolder = (\<lambda>uri. Some ''/ws''),
      pathSep = ''/'',
      pathDirname = (\<lambda>path. ''/ws/app''),
      pathJoin = (\<lambda>a b. a @ ''/'' @ b)\<rparr>"

definition scenarioExternals :: externals where
  \<open>scenarioExternals =
     \<lparr>resolver = scenarioResolver,
      isTruthy = (\<lambda>s. s = ''true'' \<or> s = ''yes'' \<or> s = ''1''),
      pathBasename = (\<lambda>path ext. ''Thing''),
      componentPatternExec =
        (\<lambda>documentText.
           Some \<lparr>matchIndex = 0,
                 head = ''<cfcomponent extends="pkg.Base" persistent="true"'',
                 attributePrefix = ''<cfcomponent'',
                 fullPrefix = None,
                 componentDoc = None,
                 checkTag = Some ''<cf'',
                 componentType = ''component'',
                 componentAttr = '' extends="pkg.Base" persistent="true"''\<rparr>),
      parseDocBlock = (\<lambda>document r. []),
      parseAttributes =
        (\<lambda>document r.
           [(''extends'',
               \<lparr>attrValue = ''pkg.Base'',
                attrValueRange = \<lparr>start = \<lparr>line = 0, character = 22\<rparr>,
                                  endp = \<lparr>line = 0, character = 30\<rparr>\<rparr>\<rparr>),
            (''persistent'',
               \<lparr>attrValue = ''true'',
                attrValueRange = \<lparr>start = \<lparr>line = 0, character = 44\<rparr>,
                                  endp = \<lparr>line = 0, character = 48\<rparr>\<rparr>\<rparr>)]),
      parseProperties = (\<lambda>document. JOpaque ''properties''),
      parseFunctions = (\<lambda>document. []),
      parseVariables = (\<lambda>document isScript r. JOpaque ''variables'')\<rparr>\<close>

definition scenarioDocument :: textDocument where
  \<open>scenarioDocument =
     \<lparr>docText = ''<cfcomponent extends="pkg.Base" persistent="true"></cfcomponent>'',
      docUri = ''/ws/app/Thing.cfc'',
      docFileName = ''/ws/app/Thing.cfc''\<rparr>\<close>

section \<open>Forward scans\<close>

text \<open>
  The loop \<^verbatim>\<open>for (let offset = start; offset < end; offset++) { body }\<close>: the body either
  returns from the enclosing function (\<open>Inl\<close>) or gives the state of the next iteration;
  a loop that runs to its end gives its last state (\<open>Inr\<close>).
\<close>

function forLoop :: "(nat \<Rightarrow> 's \<Rightarrow> 'r + 's) \<Rightarrow> nat \<Rightarrow> nat \<Rightarrow> 's \<Rightarrow> 'r + 's" where
  "forLoop body endOffset offset s =
     (if offset < endOffset
      then (case body offset s of
              Inl r \<Rightarrow> Inl r
            | Inr s' \<Rightarrow> forLoop body endOffset (Suc offset) s')
      else Inr s)"
  by pat_completeness auto
termination
  by (relation "measure (\<lambda>(body, endOffset, offset, s). endOffset - offset)") auto

declare forLoop.simps [simp del]

text \<open>The states in which the iterations of the loop start, the state after the last one included.\<close>

function loopStates :: "(nat \<Rightarrow> 's \<Rightarrow> 'r + 's) \<Rightarrow> nat \<Rightarrow> nat \<Rightarrow> 's \<Rightarrow> 's list" where
  "loopStates body endOffset offset s =
     (if offset < endOffset
      then (case body offset s of
              Inl r \<Rightarrow> [s]
            | Inr s' \<Rightarrow> s # loopStates body endOffset (Suc offset) s')
      else [s])"
  by pat_completeness auto
termination
  by (relation "measure (\<lambda>(body, endOffset, offset, s). endOffset - offset)") auto

declare loopStates.simps [simp del]

subsection \<open>String context\<close>

record StringContext =
  inString :: bool
  activeStringDelimiter :: "string option"
  embeddedCFML :: bool

definition noString :: StringContext where
  "noString = \<lparr>inString = False, activeStringDelimiter = None, embeddedCFML = False\<rparr>"

definition embeddedCFMLDelimiter :: string where
  "embeddedCFMLDelimiter = ''#''"

definition isStringDelimiter :: "string \<Rightarrow> bool" where
  "isStringDelimiter char = (char = [CHR 0x27] \<or> char = [CHR 0x22])"

text \<open>
  The branch \<^verbatim>\<open>if (stringContext.inString) { ... }\<close>, the same in the three scans, and the
  string context that an opening string delimiter sets.
\<close>

definition inStringStep :: "StringContext \<Rightarrow> string \<Rightarrow> StringContext" where
  "inStringStep stringContext characterAtPosition =
     (if characterAtPosition = embeddedCFMLDelimiter
      then stringContext\<lparr>embeddedCFML := \<not> embeddedCFML stringContext\<rparr>
      else if \<not> embeddedCFML stringContext
              \<and> Some characterAtPosition = activeStringDelimiter stringContext
      then noString
      else stringContext)"

definition openString :: "string \<Rightarrow> StringContext" where
  "openString characterAtPosition =
     \<lparr>inString = True, activeStringDelimiter = Some characterAtPosition, embeddedCFML = False\<rparr>"

subsection \<open>getClosingPosition\<close>

definition characterPairs :: "(string \<times> string) list" where
  "characterPairs =
     [(''{'', ''}''), (''['', '']''), (''('', '')''), ([CHR 0x22], [CHR 0x22]),
      ([CHR 0x27], [CHR 0x27]), (''#'', ''#''), (''<'', ''>'')]"

definition getCharacterPair :: "string \<Rightarrow> (string \<times> string) option" where
  "getCharacterPair char =
     find (\<lambda>charPair. fst charPair = char \<or> snd charPair = char) characterPairs"

definition getOpeningChar :: "string \<Rightarrow> string" where
  "getOpeningChar closingChar =
     (case getCharacterPair closingChar of None \<Rightarrow> [] | Some characterPair \<Rightarrow> fst characterPair)"

text \<open>
  The document state context: the document, whose positions are returned, and its sanitized
  text, which is scanned.
\<close>

record documentStateContext =
  document :: string
  sanitizedDocumentText :: string

record closingState =
  unclosedPairs :: nat
  closingStringContext :: StringContext

definition initialClosingState :: closingState where
  "initialClosingState = \<lparr>unclosedPairs = 0, closingStringContext = noString\<rparr>"

definition closingBody :: "string \<Rightarrow> string \<Rightarrow> string \<Rightarrow> nat \<Rightarrow> closingState \<Rightarrow> nat + closingState" where
  "closingBody documentText openingChar closingChar offset s =
     (let characterAtPosition = charAt documentText offset
      in if inString (closingStringContext s) then
           Inr (s\<lparr>closingStringContext := inStringStep (closingStringContext s) characterAtPosition\<rparr>)
         else if isStringDelimiter characterAtPosition then
           Inr (s\<lparr>closingStringContext := openString characterAtPosition\<rparr>)
         else if characterAtPosition = openingChar then
           Inr (s\<lparr>unclosedPairs := unclosedPairs s + 1\<rparr>)
         else if characterAtPosition = closingChar then
           (if unclosedPairs s \<noteq> 0 then Inr (s\<lparr>unclosedPairs := unclosedPairs s - 1\<rparr>)
            else Inl (offset + 1))
         else Inr s)"

definition getClosingPosition :: "documentStateContext \<Rightarrow> nat \<Rightarrow> string \<Rightarrow> position" where
  "getClosingPosition documentStateContext initialOffset closingChar =
     (let openingChar = getOpeningChar closingChar;
          documentText = sanitizedDocumentText documentStateContext
      in case forLoop (closingBody documentText openingChar closingChar) (length documentText)
                initialOffset initialClosingState of
           Inl offsetAfter \<Rightarrow> positionAt (document documentStateContext) offsetAfter
         | Inr s \<Rightarrow> positionAt (document documentStateContext) initialOffset)"

subsection \<open>getNextCharacterPosition\<close>

record pairItem =
  characterPair :: "string \<times> string"
  unclosedPairCount :: int

record nextCharacterState =
  nextStringContext :: StringContext
  pairContext :: "pairItem list"

definition initialPairContext :: "pairItem list" where
  "initialPairContext =
     [\<lparr>characterPair = characterPairs ! 0, unclosedPairCount = 0\<rparr>,
      \<lparr>characterPair = characterPairs ! 1, unclosedPairCount = 0\<rparr>,
      \<lparr>characterPair = characterPairs ! 2, unclosedPairCount = 0\<rparr>]"

text \<open>The \<^verbatim>\<open>char\<close> parameter is a string or an array of strings.\<close>

datatype charOrChars = OneChar string | ManyChars "string list"

fun toSearchChar :: "charOrChars \<Rightarrow> string list" where
  "toSearchChar (OneChar char) = [char]"
| "toSearchChar (ManyChars chars) = chars"

definition openingPairs :: "string list \<Rightarrow> string list" where
  "openingPairs searchChar =
     filter (\<lambda>openingChar. openingChar \<notin> set searchChar)
       (map (\<lambda>pairItem. fst (characterPair pairItem)) initialPairContext)"

definition closingPairs :: "string list \<Rightarrow> string list" where
  "closingPairs searchChar =
     filter (\<lambda>closingChar. closingChar \<notin> set searchChar)
       (map (\<lambda>pairItem. snd (characterPair pairItem)) initialPairContext)"

definition incrementUnclosedPair :: "string \<Rightarrow> pairItem list \<Rightarrow> pairItem list" where
  "incrementUnclosedPair openingChar pairs =
     map (\<lambda>pairItem. if openingChar = fst (characterPair pairItem)
                      then pairItem\<lparr>unclosedPairCount := unclosedPairCount pairItem + 1\<rparr>
                      else pairItem) pairs"

definition decrementUnclosedPair :: "string \<Rightarrow> pairItem list \<Rightarrow> pairItem list" where
  "decrementUnclosedPair closingChar pairs =
     map (\<lambda>pairItem. if closingChar = snd (characterPair pairItem)
                      then pairItem\<lparr>unclosedPairCount := unclosedPairCount pairItem - 1\<rparr>
                      else pairItem) pairs"

definition hasNoUnclosedPairs :: "pairItem list \<Rightarrow> bool" where
  "hasNoUnclosedPairs pairs = list_all (\<lambda>pairItem. unclosedPairCount pairItem = 0) pairs"

definition initialNextCharacterState :: nextCharacterState where
  "initialNextCharacterState =
     \<lparr>nextStringContext = noString, pairContext = initialPairContext\<rparr>"

definition nextCharacterBody ::
  "string \<Rightarrow> string list \<Rightarrow> bool \<Rightarrow> nat \<Rightarrow> nextCharacterState \<Rightarrow> nat + nextCharacterState" where
  "nextCharacterBody documentText searchChar includeChar offset s =
     (let characterAtPosition = charAt documentText offset
      in if inString (nextStringContext s) then
           Inr (s\<lparr>nextStringContext := inStringStep (nextStringContext s) characterAtPosition\<rparr>)
         else if isStringDelimiter characterAtPosition then
           Inr (s\<lparr>nextStringContext := openString characterAtPosition\<rparr>)
         else if characterAtPosition \<in> set (openingPairs searchChar) then
           Inr (s\<lparr>pairContext := incrementUnclosedPair characterAtPosition (pairContext s)\<rparr>)
         else if characterAtPosition \<in> set (closingPairs searchChar) then
           Inr (s\<lparr>pairContext := decrementUnclosedPair characterAtPosition (pairContext s)\<rparr>)
         else if characterAtPosition \<in> set searchChar \<and> hasNoUnclosedPairs (pairContext s) then
           (if includeChar then Inl (offset + 1) else Inl offset)
         else Inr s)"

definition getNextCharacterPosition ::
  "documentStateContext \<Rightarrow> nat \<Rightarrow> nat \<Rightarrow> charOrChars \<Rightarrow> bool \<Rightarrow> position" where
  "getNextCharacterPosition documentStateContext startOffset endOffset char includeChar =
     (let documentText = sanitizedDocumentText documentStateContext;
          searchChar = toSearchChar char
      in case forLoop (nextCharacterBody documentText searchChar includeChar) endOffset startOffset
                initialNextCharacterState of
           Inl found \<Rightarrow> positionAt (document documentStateContext) found
         | Inr s \<Rightarrow> positionAt (document documentStateContext) endOffset)"

section \<open>Comment ranges\<close>

text \<open>
  \<^verbatim>\<open>cfmlCommentRules\<close> and \<^verbatim>\<open>CommentType\<close> are declared in \<^verbatim>\<open>features/comment\<close>: the rules
  are a parameter of the iterated extraction. \<open>cfmlCommentRules\<close> below is the instance
  with the script delimiters of the comment patterns of \<^verbatim>\<open>contextUtil.ts\<close> and the CFML tag
  comment delimiters.
\<close>

record commentRules =
  scriptBlockComment :: "string \<times> string"
  scriptLineComment :: string
  tagBlockComment :: "string \<times> string"

definition cfmlCommentRules :: commentRules where
  "cfmlCommentRules =
     \<lparr>scriptBlockComment = (''/*'', ''*/''),
      scriptLineComment = ''//'',
      tagBlockComment = (''<!---'', ''--->'')\<rparr>"

datatype CommentType = Line | Block

text \<open>
  The value of \<^verbatim>\<open>activeComment\<close>: the string of a line comment or the pair of strings of a
  block comment. \<^verbatim>\<open>activeComment[1]\<close> is the closing string of a pair and the second
  character of a string; where a string has none it is \<^verbatim>\<open>undefined\<close>, which
  \<^verbatim>\<open>endsWith\<close> reads as the text \<^verbatim>\<open>undefined\<close>.
\<close>

datatype activeCommentValue = CommentString string | CommentPair "string \<times> string"

fun activeCommentAt1 :: "activeCommentValue \<Rightarrow> string" where
  "activeCommentAt1 (CommentPair p) = snd p"
| "activeCommentAt1 (CommentString s) = (if 1 < length s then [s ! 1] else ''undefined'')"

record CommentContext =
  inComment :: bool
  activeComment :: "activeCommentValue option"
  commentType :: "CommentType option"
  commentStart :: "position option"

definition noComment :: CommentContext where
  "noComment = \<lparr>inComment = False, activeComment = None, commentType = None, commentStart = None\<rparr>"

definition endsWith :: "string \<Rightarrow> string \<Rightarrow> bool" where
  "endsWith s suffix = (length suffix \<le> length s \<and> drop (length s - length suffix) s = suffix)"

text \<open>\<^verbatim>\<open>new Range(a, b)\<close> where a position may be \<^verbatim>\<open>undefined\<close>: the constructor throws.\<close>

definition newRange :: "position option \<Rightarrow> position option \<Rightarrow> error + range" where
  "newRange a b =
     (case a of
        None \<Rightarrow> Inl IllegalArgument
      | Some p \<Rightarrow> (case b of None \<Rightarrow> Inl IllegalArgument | Some q \<Rightarrow> Inr (Range p q)))"

text \<open>\<^verbatim>\<open>document.getText(range)\<close>\<close>

definition getText :: "string \<Rightarrow> range \<Rightarrow> string" where
  "getText text r =
     take (offsetAt text (endp r) - offsetAt text (start r)) (drop (offsetAt text (start r)) text)"

subsection \<open>getCfScriptRanges\<close>

text \<open>
  The pattern of \<^verbatim>\<open>getTagPattern("cfscript")\<close> is external: a parameter gives, for a text,
  the matches that the \<^verbatim>\<open>exec\<close> loop visits, each with its index and its three groups.
\<close>

record tagMatch =
  tagIndex :: nat
  tagGroup1 :: string
  tagGroup2 :: string
  tagGroup3 :: "string option"

definition getCfScriptRanges ::
  "(string \<Rightarrow> tagMatch list) \<Rightarrow> string \<Rightarrow> range option \<Rightarrow> range list" where
  "getCfScriptRanges cfscriptTagPattern text docRange =
     (let (documentText, textOffset) =
            (case docRange of
               Some r \<Rightarrow> (getText text r, offsetAt text (start r))
             | None \<Rightarrow> (text, 0))
      in concat
           (map (\<lambda>cfscriptTagMatch.
                   (let prefixLen = length (tagGroup1 cfscriptTagMatch)
                                    + length (tagGroup2 cfscriptTagMatch) + 1
                    in case tagGroup3 cfscriptTagMatch of
                         None \<Rightarrow> []
                       | Some cfscriptBodyText \<Rightarrow>
                           (if cfscriptBodyText = [] then []
                            else (let cfscriptBodyStartOffset =
                                        textOffset + tagIndex cfscriptTagMatch + prefixLen
                                  in [Range (positionAt text cfscriptBodyStartOffset)
                                            (positionAt text
                                               (cfscriptBodyStartOffset + length cfscriptBodyText))]))))
                (cfscriptTagPattern documentText)))"

subsection \<open>getCommentRangesIterated\<close>

record iteratedState =
  commentRanges :: "range list"
  commentContext :: CommentContext
  lineText :: string
  stringContext :: StringContext
  previousPosition :: "position option"

definition initialIteratedState :: iteratedState where
  "initialIteratedState =
     \<lparr>commentRanges = [], commentContext = noComment, lineText = [], stringContext = noString,
      previousPosition = None\<rparr>"

text \<open>
  The body of the loop over the offsets. \<open>s1\<close> is the state with the line text of this
  iteration and with \<^verbatim>\<open>previousPosition = position\<close>, the assignment that ends the body.
\<close>

definition iteratedBody ::
  "commentRules \<Rightarrow> string \<Rightarrow> bool \<Rightarrow> nat \<Rightarrow> iteratedState \<Rightarrow> error + iteratedState" where
  "iteratedBody rules documentText isScript offset s =
     (let position = positionAt documentText offset;
          characterAtPosition = charAt documentText offset;
          lineText' =
            (case previousPosition s of
               Some prev \<Rightarrow> (if line position \<noteq> line prev then [] else lineText s)
             | None \<Rightarrow> lineText s) @ characterAtPosition;
          s1 = s\<lparr>lineText := lineText', previousPosition := Some position\<rparr>;
          cc = commentContext s
      in if inComment cc then
           (if commentType cc = Some Line then
              (case previousPosition s of
                 None \<Rightarrow> Inl TypeError
               | Some prev \<Rightarrow>
                   (if line position \<noteq> line prev then
                      (case newRange (commentStart cc) (Some prev) of
                         Inl e \<Rightarrow> Inl e
                       | Inr r \<Rightarrow>
                           Inr (s1\<lparr>commentRanges := commentRanges s @ [r],
                                   commentContext := noComment\<rparr>))
                    else Inr s1))
            else if commentType cc = Some Block then
              (case activeComment cc of
                 None \<Rightarrow> Inl TypeError
               | Some active \<Rightarrow>
                   (if endsWith lineText' (activeCommentAt1 active) then
                      (case newRange (commentStart cc)
                              (Some (positionAt documentText (offset + 1))) of
                         Inl e \<Rightarrow> Inl e
                       | Inr r \<Rightarrow>
                           Inr (s1\<lparr>commentRanges := commentRanges s @ [r],
                                   commentContext := noComment\<rparr>))
                    else Inr s1))
            else Inr s1)
         else if inString (stringContext s) then
           Inr (s1\<lparr>stringContext := inStringStep (stringContext s) characterAtPosition\<rparr>)
         else if isScript then
           (if isStringDelimiter characterAtPosition then
              Inr (s1\<lparr>stringContext := openString characterAtPosition\<rparr>)
            else if endsWith lineText' (scriptLineComment rules) then
              Inr (s1\<lparr>commentContext :=
                        \<lparr>inComment = True,
                         activeComment = Some (CommentString (scriptLineComment rules)),
                         commentType = Some Line,
                         commentStart = previousPosition s\<rparr>\<rparr>)
            else if endsWith lineText' (fst (scriptBlockComment rules)) then
              Inr (s1\<lparr>commentContext :=
                        \<lparr>inComment = True,
                         activeComment = Some (CommentString (scriptLineComment rules)),
                         commentType = Some Block,
                         commentStart = previousPosition s\<rparr>\<rparr>)
            else Inr s1)
         else if endsWith lineText' (fst (tagBlockComment rules)) then
           (if character position + 1 < length (fst (tagBlockComment rules)) then
              Inl IllegalArgument
            else
              Inr (s1\<lparr>commentContext :=
                        \<lparr>inComment = True,
                         activeComment = Some (CommentPair (tagBlockComment rules)),
                         commentType = Some Block,
                         commentStart =
                           Some (position\<lparr>character :=
                                   character position + 1
                                   - length (fst (tagBlockComment rules))\<rparr>)\<rparr>\<rparr>))
         else Inr s1)"

text \<open>
  The offsets of the scan and the loop of \<^verbatim>\<open>getCommentRangesIterated\<close>. The body never
  returns from the function: \<open>Inl\<close> is an error thrown in it.
\<close>

definition scanOffsets :: "string \<Rightarrow> range option \<Rightarrow> nat \<times> nat" where
  "scanOffsets text docRange =
     (case docRange of
        Some r \<Rightarrow> (offsetAt text (start r), offsetAt text (endp r))
      | None \<Rightarrow> (0, length text))"

definition iteratedScan ::
  "commentRules \<Rightarrow> string \<Rightarrow> bool \<Rightarrow> range option \<Rightarrow> error + range list" where
  "iteratedScan rules text isScript docRange =
     (let (textOffsetStart, textOffsetEnd) = scanOffsets text docRange
      in case forLoop (iteratedBody rules text isScript) textOffsetEnd textOffsetStart
                initialIteratedState of
           Inl e \<Rightarrow> Inl e
         | Inr s \<Rightarrow> Inr (commentRanges s))"

text \<open>
  The \<^verbatim>\<open>forEach\<close> over the cfscript ranges: the comments of a range that lies in no comment
  found so far are appended. The call \<^verbatim>\<open>getCommentRangesIterated(document, true, range)\<close> is
  in script mode, where there are no cfscript ranges: it is the scan alone.
\<close>

fun addCfScriptComments ::
  "commentRules \<Rightarrow> string \<Rightarrow> range list \<Rightarrow> range list \<Rightarrow> error + range list" where
  "addCfScriptComments rules text [] ranges = Inr ranges"
| "addCfScriptComments rules text (r # rs) ranges =
     (if \<not> isInRanges ranges r then
        (case iteratedScan rules text True (Some r) of
           Inl e \<Rightarrow> Inl e
         | Inr cfscriptCommentRanges \<Rightarrow>
             addCfScriptComments rules text rs (ranges @ cfscriptCommentRanges))
      else addCfScriptComments rules text rs ranges)"

definition getCommentRangesIterated ::
  "commentRules \<Rightarrow> (string \<Rightarrow> tagMatch list) \<Rightarrow> string \<Rightarrow> bool \<Rightarrow> range option
     \<Rightarrow> error + range list" where
  "getCommentRangesIterated rules cfscriptTagPattern text isScript docRange =
     (let cfScriptRanges =
            (if \<not> isScript then getCfScriptRanges cfscriptTagPattern text docRange else [])
      in case iteratedScan rules text isScript docRange of
           Inl e \<Rightarrow> Inl e
         | Inr ranges \<Rightarrow>
             (if cfScriptRanges \<noteq> [] then
                addCfScriptComments rules text cfScriptRanges
                  (filter (\<lambda>r. \<not> isInRanges cfScriptRanges r) ranges)
              else Inr ranges))"

subsection \<open>getCommentRangesByRegex\<close>

text \<open>
  The three comment patterns. \<open>indexOf\<close> is the index of the first occurrence of a string
  in a text, \<open>indexOfFrom\<close> the first one at or after an index.
\<close>

definition startsWith :: "string \<Rightarrow> string \<Rightarrow> bool" where
  "startsWith s pre = (take (length pre) s = pre)"

fun indexOf :: "string \<Rightarrow> string \<Rightarrow> nat option" where
  "indexOf pat [] = (if pat = [] then Some 0 else None)"
| "indexOf pat (c # cs) =
     (if startsWith (c # cs) pat then Some 0 else map_option Suc (indexOf pat cs))"

definition indexOfFrom :: "string \<Rightarrow> string \<Rightarrow> nat \<Rightarrow> nat option" where
  "indexOfFrom text pat i =
     (if length text < i then None else map_option (\<lambda>k. k + i) (indexOf pat (drop i text)))"

lemma startsWith_length: "startsWith s pre \<Longrightarrow> length pre \<le> length s"
proof -
  assume "startsWith s pre"
  then have "length (take (length pre) s) = length pre"
    unfolding startsWith_def by (rule arg_cong)
  then show ?thesis by simp
qed

lemma indexOf_bounds: "indexOf pat s = Some k \<Longrightarrow> k + length pat \<le> length s"
proof (induction s arbitrary: k)
  case Nil
  then show ?case by (simp split: if_splits)
next
  case (Cons c cs)
  show ?case
  proof (cases "startsWith (c # cs) pat")
    case True
    with Cons.prems show ?thesis using startsWith_length [OF True] by simp
  next
    case False
    with Cons.prems obtain j where j: "indexOf pat cs = Some j" "k = Suc j" by auto
    from Cons.IH [OF j(1)] j(2) show ?thesis by simp
  qed
qed

lemma indexOfFrom_bounds:
  "indexOfFrom text pat i = Some k \<Longrightarrow> i \<le> k \<and> k + length pat \<le> length text"
proof -
  assume a: "indexOfFrom text pat i = Some k"
  then have le: "i \<le> length text" by (simp add: indexOfFrom_def split: if_splits)
  with a obtain j where j: "indexOf pat (drop i text) = Some j" "k = j + i"
    by (auto simp: indexOfFrom_def)
  from indexOf_bounds [OF j(1)] le j(2) show ?thesis by simp
qed

text \<open>
  The \<^verbatim>\<open>exec\<close> loop of a pattern \<^verbatim>\<open>open[\s\S]*?close\<close> with the global flag, from
  \<^verbatim>\<open>lastIndex\<close>: the index and the length of each match. The opening string of a pattern is
  not empty.
\<close>

function blockCommentMatches :: "string \<Rightarrow> string \<Rightarrow> string \<Rightarrow> nat \<Rightarrow> (nat \<times> nat) list" where
  "blockCommentMatches opening closing text lastIndex =
     (if opening = [] then []
      else (case indexOfFrom text opening lastIndex of
              None \<Rightarrow> []
            | Some i \<Rightarrow>
                (case indexOfFrom text closing (i + length opening) of
                   None \<Rightarrow> []
                 | Some j \<Rightarrow>
                     (i, j + length closing - i)
                     # blockCommentMatches opening closing text (j + length closing))))"
  by pat_completeness auto
termination
proof (relation "measure (\<lambda>(opening, closing, text, lastIndex). length text - lastIndex)", goal_cases)
  case 1
  then show ?case by simp
next
  case (2 opn cls doc lastIndex i j)
  from 2(2) have a: "lastIndex \<le> i" by (simp add: indexOfFrom_bounds)
  from 2(3) have b: "i + length opn \<le> j" "j + length cls \<le> length doc"
    by (simp_all add: indexOfFrom_bounds)
  from 2(1) obtain x xs where "opn = x # xs" by (cases opn) auto
  with a b show ?case by simp
qed

declare blockCommentMatches.simps [simp del]

text \<open>The \<^verbatim>\<open>exec\<close> loop of \<^verbatim>\<open>cfscriptLineCommentPattern\<close>, \<^verbatim>\<open>/\/\/[^\r\n]*/g\<close>.\<close>

function lineCommentMatches :: "string \<Rightarrow> nat \<Rightarrow> (nat \<times> nat) list" where
  "lineCommentMatches text lastIndex =
     (case indexOfFrom text ''//'' lastIndex of
        None \<Rightarrow> []
      | Some i \<Rightarrow>
          (let n = 2 + length (takeWhile (\<lambda>c. c \<noteq> CARRIAGE_RETURN \<and> c \<noteq> NEW_LINE)
                                (drop (i + 2) text))
           in (i, n) # lineCommentMatches text (i + n)))"
  by pat_completeness auto
termination
proof (relation "measure (\<lambda>(text, lastIndex). length text - lastIndex)", goal_cases)
  case 1
  then show ?case by simp
next
  case (2 doc lastIndex i n)
  from 2(1) have "lastIndex \<le> i" "i + 2 \<le> length doc"
    using indexOfFrom_bounds [of doc "''//''" lastIndex i] by simp_all
  with 2(2) show ?case by simp
qed

declare lineCommentMatches.simps [simp del]

definition cfscriptBlockCommentPattern :: "string \<Rightarrow> (nat \<times> nat) list" where
  "cfscriptBlockCommentPattern documentText = blockCommentMatches ''/*'' ''*/'' documentText 0"

definition cfscriptLineCommentPattern :: "string \<Rightarrow> (nat \<times> nat) list" where
  "cfscriptLineCommentPattern documentText = lineCommentMatches documentText 0"

definition tagBlockCommentPattern :: "string \<Rightarrow> (nat \<times> nat) list" where
  "tagBlockCommentPattern documentText = blockCommentMatches ''<!--'' ''-->'' documentText 0"

text \<open>The range pushed for each match of a pattern.\<close>

definition matchRanges :: "string \<Rightarrow> nat \<Rightarrow> (nat \<times> nat) list \<Rightarrow> range list" where
  "matchRanges text textOffset ms =
     map (\<lambda>(index, len).
            Range (positionAt text (textOffset + index))
                  (positionAt text (textOffset + index + len))) ms"

definition regexText :: "string \<Rightarrow> range option \<Rightarrow> string \<times> nat" where
  "regexText text docRange =
     (case docRange of
        Some r \<Rightarrow> (getText text r, offsetAt text (start r))
      | None \<Rightarrow> (text, 0))"

text \<open>
  \<^verbatim>\<open>getCommentRangesByRegex\<close> in script mode, and in both modes: in tag mode it calls itself
  in script mode on each cfscript range.
\<close>

definition scriptCommentRangesByRegex :: "string \<Rightarrow> range option \<Rightarrow> range list" where
  "scriptCommentRangesByRegex text docRange =
     (let (documentText, textOffset) = regexText text docRange
      in matchRanges text textOffset (cfscriptBlockCommentPattern documentText)
         @ matchRanges text textOffset (cfscriptLineCommentPattern documentText))"

definition getCommentRangesByRegex ::
  "(string \<Rightarrow> tagMatch list) \<Rightarrow> string \<Rightarrow> bool \<Rightarrow> range option \<Rightarrow> range list" where
  "getCommentRangesByRegex cfscriptTagPattern text isScript docRange =
     (if isScript then scriptCommentRangesByRegex text docRange
      else (let (documentText, textOffset) = regexText text docRange
            in matchRanges text textOffset (tagBlockCommentPattern documentText)
               @ concat (map (\<lambda>r. scriptCommentRangesByRegex text (Some r))
                           (getCfScriptRanges cfscriptTagPattern text docRange))))"

definition getCommentRanges ::
  "commentRules \<Rightarrow> (string \<Rightarrow> tagMatch list) \<Rightarrow> string \<Rightarrow> bool \<Rightarrow> range option \<Rightarrow> bool
     \<Rightarrow> error + range list" where
  "getCommentRanges rules cfscriptTagPattern text isScript docRange fast =
     (if fast then Inr (getCommentRangesByRegex cfscriptTagPattern text isScript docRange)
      else getCommentRangesIterated rules cfscriptTagPattern text isScript docRange)"

text \<open>
  The invariant of the string context: an embedded expression is active only inside a string.
\<close>

definition stringContextInvariant :: "StringContext \<Rightarrow> bool" where
  "stringContextInvariant c = (embeddedCFML c \<longrightarrow> inString c)"

text \<open>
  A script text with a string that holds an embedded expression with a quote in it:
  \<^verbatim>\<open>"x#"y"#z" }\<close>.
\<close>

definition embeddedText :: string where
  "embeddedText = [CHR 0x22] @ ''x#'' @ [CHR 0x22] @ ''y'' @ [CHR 0x22] @ ''#z'' @ [CHR 0x22] @ '' }''"

subsection \<open>The state of a scan at an offset\<close>

text \<open>
  The state in which the loop of a scan reaches an offset, when no earlier iteration
  returned: the loop body applied to each offset before it.
\<close>

definition continueWith :: "(nat \<Rightarrow> 's \<Rightarrow> 'r + 's) \<Rightarrow> nat \<Rightarrow> 's \<Rightarrow> 's" where
  "continueWith body k s = (case body k s of Inl r \<Rightarrow> s | Inr s' \<Rightarrow> s')"

definition stateAt :: "(nat \<Rightarrow> 's \<Rightarrow> 'r + 's) \<Rightarrow> nat \<Rightarrow> 's \<Rightarrow> nat \<Rightarrow> 's" where
  "stateAt body startOffset s k = fold (continueWith body) [startOffset..<k] s"

text \<open>The text \<^verbatim>\<open>{a: {b: 1}, c: 2}\<close> of the specification, and a text whose brace is never closed.\<close>

definition nestedBracesText :: string where
  "nestedBracesText = ''{a: {b: 1}, c: 2}''"

definition unclosedBraceText :: string where
  "unclosedBraceText = ''{a: {b: 1}, c: 2''"

text \<open>The argument list \<^verbatim>\<open>f(a, b(c, d), e)\<close> of the specification, and a text with a string.\<close>

definition argumentListText :: string where
  "argumentListText = ''f(a, b(c, d), e)''"

definition quotedText :: string where
  "quotedText = ''a'' @ [CHR 0x22] @ ''b'' @ [CHR 0x22] @ ''c''"

subsection \<open>The scans as the specification words them\<close>

text \<open>
  The specification describes the two position queries over the characters of the text:
  a string context (outside a string, or inside one with its delimiter and the flag of an
  embedded expression) and one count of unclosed pairs for each pair kind. The functions
  below follow these words, on the list of the characters that are left and the offset of
  its first character; the results below compare them with the functions of the code.
\<close>

datatype stringMode = OutsideString | InsideString char bool

fun specStringStep :: "stringMode \<Rightarrow> char \<Rightarrow> stringMode" where
  "specStringStep (InsideString d e) c =
     (if c = CHR ''#'' then InsideString d (\<not> e)
      else if \<not> e \<and> c = d then OutsideString
      else InsideString d e)"
| "specStringStep OutsideString c =
     (if c = CHR 0x22 \<or> c = CHR 0x27 then InsideString c False else OutsideString)"

text \<open>
  \<^verbatim>\<open>closingPairPosition\<close>: the offset of the first closing character that is read outside a
  string while no pair is unclosed; an opening character read outside a string adds an
  unclosed pair, a closing character read while a pair is unclosed closes one.
\<close>

fun specClosingPair :: "char \<Rightarrow> char \<Rightarrow> string \<Rightarrow> nat \<Rightarrow> stringMode \<Rightarrow> nat \<Rightarrow> nat option" where
  "specClosingPair opn cls [] k q depth = None"
| "specClosingPair opn cls (c # cs) k (InsideString d e) depth =
     specClosingPair opn cls cs (Suc k) (specStringStep (InsideString d e) c) depth"
| "specClosingPair opn cls (c # cs) k OutsideString depth =
     (if c = CHR 0x22 \<or> c = CHR 0x27
      then specClosingPair opn cls cs (Suc k) (InsideString c False) depth
      else if c = opn then specClosingPair opn cls cs (Suc k) OutsideString (Suc depth)
      else if c = cls then
        (if depth = 0 then Some k
         else specClosingPair opn cls cs (Suc k) OutsideString (depth - 1))
      else specClosingPair opn cls cs (Suc k) OutsideString depth)"

text \<open>The bracket pairs: the pairs whose closing character differs from the opening one.\<close>

definition bracketPairs :: "(char \<times> char) list" where
  "bracketPairs =
     [(CHR ''{'', CHR ''}''), (CHR ''['', CHR '']''), (CHR ''('', CHR '')''), (CHR ''<'', CHR ''>'')]"

text \<open>
  In a text without string delimiters no closing character is left unmatched when none of
  its prefixes has more closing than opening characters; the text is balanced when it has,
  moreover, as many closing as opening characters.
\<close>

definition neverOverClosed :: "char \<Rightarrow> char \<Rightarrow> string \<Rightarrow> bool" where
  "neverOverClosed opn cls w =
     (list_all (\<lambda>c. c \<noteq> CHR 0x22 \<and> c \<noteq> CHR 0x27) w
      \<and> list_all (\<lambda>n. count_list (take n w) cls \<le> count_list (take n w) opn)
           [0..<Suc (length w)])"

definition balancedText :: "char \<Rightarrow> char \<Rightarrow> string \<Rightarrow> bool" where
  "balancedText opn cls w =
     (neverOverClosed opn cls w \<and> count_list w opn = count_list w cls)"

text \<open>
  \<^verbatim>\<open>nextUnnestedCharacterPosition\<close>: the offset of the first target character that is read
  outside a string while the counts of braces, brackets and parentheses are all zero. A
  string delimiter opens a string; a pair character that is a target character is not
  counted.
\<close>

fun specNextUnnested ::
  "string list \<Rightarrow> string \<Rightarrow> nat \<Rightarrow> stringMode \<Rightarrow> int \<Rightarrow> int \<Rightarrow> int \<Rightarrow> nat option" where
  "specNextUnnested targets [] k q braces brackets parens = None"
| "specNextUnnested targets (c # cs) k (InsideString d e) braces brackets parens =
     specNextUnnested targets cs (Suc k) (specStringStep (InsideString d e) c)
       braces brackets parens"
| "specNextUnnested targets (c # cs) k OutsideString braces brackets parens =
     (if c = CHR 0x22 \<or> c = CHR 0x27
      then specNextUnnested targets cs (Suc k) (InsideString c False) braces brackets parens
      else if [c] \<in> set targets then
        (if braces = 0 \<and> brackets = 0 \<and> parens = 0 then Some k
         else specNextUnnested targets cs (Suc k) OutsideString braces brackets parens)
      else if c = CHR ''{''
      then specNextUnnested targets cs (Suc k) OutsideString (braces + 1) brackets parens
      else if c = CHR ''}''
      then specNextUnnested targets cs (Suc k) OutsideString (braces - 1) brackets parens
      else if c = CHR ''[''
      then specNextUnnested targets cs (Suc k) OutsideString braces (brackets + 1) parens
      else if c = CHR '']''
      then specNextUnnested targets cs (Suc k) OutsideString braces (brackets - 1) parens
      else if c = CHR ''(''
      then specNextUnnested targets cs (Suc k) OutsideString braces brackets (parens + 1)
      else if c = CHR '')''
      then specNextUnnested targets cs (Suc k) OutsideString braces brackets (parens - 1)
      else specNextUnnested targets cs (Suc k) OutsideString braces brackets parens)"

text \<open>The string context of the code that stands for a string context of the specification.\<close>

fun stringContextOf :: "stringMode \<Rightarrow> StringContext" where
  "stringContextOf OutsideString = noString"
| "stringContextOf (InsideString d e) =
     \<lparr>inString = True, activeStringDelimiter = Some [d], embeddedCFML = e\<rparr>"

text \<open>A text with a closing brace inside a string: \<^verbatim>\<open>{a: "}"}\<close>.\<close>

definition quotedBraceText :: string where
  "quotedBraceText = ''{a: '' @ [CHR 0x22] @ ''}'' @ [CHR 0x22] @ ''}''"

text \<open>
  The count of unclosed pairs of one kind after a text without strings: the opening minus
  the closing characters, a pair character that is a target not being counted. A target
  character is unnested at an index of a text when the three counts after the text before
  it are zero.
\<close>

definition pairBalance :: "string list \<Rightarrow> char \<Rightarrow> char \<Rightarrow> string \<Rightarrow> int" where
  "pairBalance targets opn cls w =
     (if [opn] \<in> set targets then 0 else int (count_list w opn))
     - (if [cls] \<in> set targets then 0 else int (count_list w cls))"

definition unnestedTargetAt :: "string list \<Rightarrow> string \<Rightarrow> nat \<Rightarrow> bool" where
  "unnestedTargetAt targets w n =
     ([w ! n] \<in> set targets
      \<and> pairBalance targets CHR ''{'' CHR ''}'' (take n w) = 0
      \<and> pairBalance targets CHR ''['' CHR '']'' (take n w) = 0
      \<and> pairBalance targets CHR ''('' CHR '')'' (take n w) = 0)"

text \<open>The characters that a scan from \<^verbatim>\<open>startOffset\<close> up to \<^verbatim>\<open>endOffset\<close> reads.\<close>

definition scannedText :: "documentStateContext \<Rightarrow> nat \<Rightarrow> nat \<Rightarrow> string" where
  "scannedText dsc startOffset endOffset =
     take (endOffset - startOffset) (drop startOffset (sanitizedDocumentText dsc))"

text \<open>The pair context of the code with the given counts of braces, brackets and parentheses.\<close>

definition pairContextOf :: "int \<Rightarrow> int \<Rightarrow> int \<Rightarrow> pairItem list" where
  "pairContextOf braces brackets parens =
     [\<lparr>characterPair = (''{'', ''}''), unclosedPairCount = braces\<rparr>,
      \<lparr>characterPair = (''['', '']''), unclosedPairCount = brackets\<rparr>,
      \<lparr>characterPair = (''('', '')''), unclosedPairCount = parens\<rparr>]"

text \<open>An argument list with a comma inside a string: \<^verbatim>\<open>f("a,b", c)\<close>.\<close>

definition quotedCommaText :: string where
  "quotedCommaText = ''f('' @ [CHR 0x22] @ ''a,b'' @ [CHR 0x22] @ '', c)''"

subsection \<open>The accurate scan in tag mode, on offsets\<close>

text \<open>
  In tag mode the accurate scan tracks no strings, and its comments are block comments
  only. Its state is determined by the offset where the open comment starts, if there is
  one, and by the pairs of start and end offsets of the comments closed so far.
  \<open>lineTextAt\<close> is the line text of the scan at an offset: the text of the line of
  the offset, from the start of the scan where the scan starts on this line.
\<close>

definition lineStartOf :: "string \<Rightarrow> nat \<Rightarrow> nat" where
  "lineStartOf doc offset = offset - character (positionAt doc offset)"

definition lineTextAt :: "string \<Rightarrow> nat \<Rightarrow> nat \<Rightarrow> string" where
  "lineTextAt doc scanStart offset =
     (let from = max scanStart (lineStartOf doc offset)
      in take (Suc offset - from) (drop from doc))"

type_synonym tagScanState = "nat option \<times> (nat \<times> nat) list"

definition tagStep :: "commentRules \<Rightarrow> string \<Rightarrow> nat \<Rightarrow> nat \<Rightarrow> tagScanState \<Rightarrow> tagScanState" where
  "tagStep rules doc scanStart offset st =
     (let lt = lineTextAt doc scanStart offset
      in case fst st of
           None \<Rightarrow>
             (if endsWith lt (fst (tagBlockComment rules))
              then (Some (Suc offset - length (fst (tagBlockComment rules))), snd st)
              else st)
         | Some a \<Rightarrow>
             (if endsWith lt (snd (tagBlockComment rules))
              then (None, snd st @ [(a, Suc offset)])
              else st))"

definition tagScan :: "commentRules \<Rightarrow> string \<Rightarrow> nat \<Rightarrow> nat \<Rightarrow> tagScanState" where
  "tagScan rules doc scanStart scanEnd =
     fold (tagStep rules doc scanStart) [scanStart..<scanEnd] (None, [])"

definition offsetRanges :: "string \<Rightarrow> (nat \<times> nat) list \<Rightarrow> range list" where
  "offsetRanges doc ms = map (\<lambda>(a, b). Range (positionAt doc a) (positionAt doc b)) ms"

definition tagRel ::
  "commentRules \<Rightarrow> string \<Rightarrow> nat \<Rightarrow> nat \<Rightarrow> iteratedState \<Rightarrow> tagScanState \<Rightarrow> bool" where
  "tagRel rules doc scanStart offset s st =
     (stringContext s = noString
      \<and> previousPosition s =
          (if offset = scanStart then None else Some (positionAt doc (offset - 1)))
      \<and> lineText s = (if offset = scanStart then [] else lineTextAt doc scanStart (offset - 1))
      \<and> commentRanges s = offsetRanges doc (snd st)
      \<and> (case fst st of
            None \<Rightarrow> \<not> inComment (commentContext s)
          | Some a \<Rightarrow>
              commentContext s =
                \<lparr>inComment = True, activeComment = Some (CommentPair (tagBlockComment rules)),
                 commentType = Some Block, commentStart = Some (positionAt doc a)\<rparr>))"

section \<open>Backward iteration and readArguments\<close>

text \<open>
  A character code is a number or, for \<^verbatim>\<open>charCodeAt\<close> outside the string, \<^verbatim>\<open>NaN\<close> (\<open>None\<close>),
  which equals no code and which \<^verbatim>\<open>String.fromCharCode\<close> turns into the character 0.
\<close>

type_synonym charCode = "nat option"

definition NEW_LINE_CODE :: charCode where "NEW_LINE_CODE = Some 10"
definition LEFT_BRACKET :: charCode where "LEFT_BRACKET = Some 91"
definition RIGHT_BRACKET :: charCode where "RIGHT_BRACKET = Some 93"
definition LEFT_BRACE :: charCode where "LEFT_BRACE = Some 123"
definition RIGHT_BRACE :: charCode where "RIGHT_BRACE = Some 125"
definition LEFT_PAREN :: charCode where "LEFT_PAREN = Some 40"
definition RIGHT_PAREN :: charCode where "RIGHT_PAREN = Some 41"
definition COMMA :: charCode where "COMMA = Some 44"
definition SINGLE_QUOTE :: charCode where "SINGLE_QUOTE = Some 39"
definition DOUBLE_QUOTE :: charCode where "DOUBLE_QUOTE = Some 34"
definition BOF :: charCode where "BOF = Some 0"

definition charCodeAt :: "string \<Rightarrow> int \<Rightarrow> charCode" where
  "charCodeAt s i = (if 0 \<le> i \<and> i < int (length s) then Some (of_char (s ! nat i)) else None)"

definition fromCharCode :: "charCode \<Rightarrow> string" where
  "fromCharCode ch = (case ch of None \<Rightarrow> [CHR 0x00] | Some n \<Rightarrow> [char_of n])"

text \<open>
  The class \<^verbatim>\<open>BackwardIterator\<close>; \<open>nextCode\<close> is its method \<^verbatim>\<open>next\<close>. The document is
  the list of the texts of its lines, without their line ends;
  \<^verbatim>\<open>document.lineAt(n).text\<close> is read for line numbers from the one of the start position
  down to 0 only. The constructor fails on a position whose line is not in the document.
\<close>

fun lineTexts :: "string \<Rightarrow> string \<Rightarrow> string list" where
  "lineTexts acc [] = [rev acc]"
| "lineTexts acc (c # cs) =
     (if c = NEW_LINE
      then rev (if take 1 acc = [CARRIAGE_RETURN] then drop 1 acc else acc) # lineTexts [] cs
      else lineTexts (c # acc) cs)"

record BackwardIterator =
  documentLines :: "string list"
  lineNumber :: int
  lineCharacterOffset :: int
  iteratorLineText :: string

definition lineAtText :: "string list \<Rightarrow> int \<Rightarrow> string" where
  "lineAtText ls n = (if 0 \<le> n \<and> n < int (length ls) then ls ! nat n else [])"

definition newBackwardIterator :: "string \<Rightarrow> position \<Rightarrow> error + BackwardIterator" where
  "newBackwardIterator text p =
     (let ls = lineTexts [] text
      in if line p < length ls
         then Inr \<lparr>documentLines = ls, lineNumber = int (line p),
                   lineCharacterOffset = int (character p),
                   iteratorLineText = ls ! line p\<rparr>
         else Inl IllegalArgument)"

definition hasNext :: "BackwardIterator \<Rightarrow> bool" where
  "hasNext it = (0 \<le> lineNumber it)"

definition nextCode :: "BackwardIterator \<Rightarrow> charCode \<times> BackwardIterator" where
  "nextCode it =
     (if lineCharacterOffset it < 0 then
        (let it1 = it\<lparr>lineNumber := lineNumber it - 1\<rparr>
         in if 0 \<le> lineNumber it1 then
              (let t = lineAtText (documentLines it1) (lineNumber it1)
               in (NEW_LINE_CODE,
                   it1\<lparr>iteratorLineText := t, lineCharacterOffset := int (length t) - 1\<rparr>))
            else (BOF, it1))
      else (charCodeAt (iteratorLineText it) (lineCharacterOffset it),
            it\<lparr>lineCharacterOffset := lineCharacterOffset it - 1\<rparr>))"

text \<open>What is left to iterate: the lines and the characters of the current line.\<close>

definition remaining :: "(BackwardIterator \<times> BackwardIterator) set" where
  "remaining =
     inv_image (measure nat <*lex*> measure nat)
       (\<lambda>it. (lineNumber it + 1, lineCharacterOffset it + 1))"

lemma wf_remaining: "wf remaining"
  unfolding remaining_def by (intro wf_inv_image wf_lex_prod wf_measure)

lemma nextCode_remaining: "hasNext it \<Longrightarrow> (snd (nextCode it), it) \<in> remaining"
  by (auto simp: hasNext_def nextCode_def remaining_def Let_def)

text \<open>
  The inner loop of \<^verbatim>\<open>readArguments\<close>, which reads up to the closing quote:
  the iterator and \<^verbatim>\<open>currArg\<close> after it.
\<close>

function readQuoted ::
  "BackwardIterator \<Rightarrow> charCode \<Rightarrow> string list \<Rightarrow> BackwardIterator \<times> string list" where
  "readQuoted it ch currArg =
     (if hasNext it then
        (let (nch, it1) = nextCode it;
             currArg1 = fromCharCode nch # currArg
         in if ch = nch \<and> ch \<noteq> None then (it1, currArg1) else readQuoted it1 ch currArg1)
      else (it, currArg))"
  by pat_completeness auto
termination
proof (relation "inv_image remaining (\<lambda>(it, ch, currArg). it)", goal_cases)
  case 1
  then show ?case by (simp add: wf_remaining)
next
  case (2 it ch currArg x nch it1 currArg1)
  then have "it1 = snd (nextCode it)" by (metis snd_conv)
  with 2(1) show ?case using nextCode_remaining by simp
qed

declare readQuoted.simps [simp del]

record readState =
  iterator :: BackwardIterator
  parenNesting :: int
  bracketNesting :: int
  braceNesting :: int
  allArgs :: "string list"
  currArg :: "string list"

text \<open>
  The body of the loop of \<^verbatim>\<open>readArguments\<close>, entered when the iterator has a next
  character: it returns the arguments (\<open>Inl\<close>) or gives the state of the next iteration.
\<close>

definition readArgumentsBody :: "readState \<Rightarrow> string list + readState" where
  "readArgumentsBody s =
     (let (ch, it1) = nextCode (iterator s);
          currArg1 = fromCharCode ch # currArg s;
          s1 = s\<lparr>iterator := it1, currArg := currArg1\<rparr>
      in if ch = LEFT_PAREN then
           (if parenNesting s - 1 < 0
            then Inl (trim (concat (tl currArg1)) # allArgs s)
            else Inr (s1\<lparr>parenNesting := parenNesting s - 1\<rparr>))
         else if ch = RIGHT_PAREN then Inr (s1\<lparr>parenNesting := parenNesting s + 1\<rparr>)
         else if ch = LEFT_BRACE then Inr (s1\<lparr>braceNesting := braceNesting s - 1\<rparr>)
         else if ch = RIGHT_BRACE then Inr (s1\<lparr>braceNesting := braceNesting s + 1\<rparr>)
         else if ch = LEFT_BRACKET then Inr (s1\<lparr>bracketNesting := bracketNesting s - 1\<rparr>)
         else if ch = RIGHT_BRACKET then Inr (s1\<lparr>bracketNesting := bracketNesting s + 1\<rparr>)
         else if ch = DOUBLE_QUOTE \<or> ch = SINGLE_QUOTE then
           (let (it2, currArg2) = readQuoted it1 ch (fromCharCode ch # currArg1)
            in Inr (s\<lparr>iterator := it2, currArg := currArg2\<rparr>))
         else if ch = COMMA then
           (if parenNesting s = 0 \<and> bracketNesting s = 0 \<and> braceNesting s = 0
            then Inr (s1\<lparr>allArgs := trim (concat (tl currArg1)) # allArgs s, currArg := []\<rparr>)
            else Inr s1)
         else Inr s1)"

lemma remaining_iff:
  "((a, b) \<in> remaining) =
     (nat (lineNumber a + 1) < nat (lineNumber b + 1)
      \<or> (lineNumber a = lineNumber b
          \<and> nat (lineCharacterOffset a + 1) < nat (lineCharacterOffset b + 1)))"
  by (auto simp: remaining_def)

lemma remaining_trans: "(a, b) \<in> remaining \<Longrightarrow> (b, c) \<in> remaining \<Longrightarrow> (a, c) \<in> remaining"
  unfolding remaining_iff by auto

lemma readQuoted_remaining:
  "readQuoted it ch c = (it2, c2) \<Longrightarrow> it2 = it \<or> (it2, it) \<in> remaining"
proof (induction it ch c arbitrary: it2 c2 rule: readQuoted.induct)
  case (1 it ch currArg)
  show ?case
  proof (cases "hasNext it")
    case False
    with "1.prems" show ?thesis by (simp add: readQuoted.simps [of it])
  next
    case True
    obtain nch it1 where n: "nextCode it = (nch, it1)" by (cases "nextCode it")
    from True n have r: "(it1, it) \<in> remaining" using nextCode_remaining [of it] by simp
    show ?thesis
    proof (cases "ch = nch \<and> ch \<noteq> None")
      case True
      with \<open>hasNext it\<close> n "1.prems" have "it2 = it1"
        by (auto simp: readQuoted.simps [of it] Let_def)
      with r show ?thesis by simp
    next
      case False
      with \<open>hasNext it\<close> n "1.prems"
      have e: "readQuoted it1 ch (fromCharCode nch # currArg) = (it2, c2)"
        by (auto simp: readQuoted.simps [of it] Let_def split: if_splits)
      from "1.IH" [OF \<open>hasNext it\<close> refl n [symmetric] refl False e]
      have "it2 = it1 \<or> (it2, it1) \<in> remaining" .
      with r show ?thesis by (auto intro: remaining_trans)
    qed
  qed
qed

lemma readArgumentsBody_remaining:
  assumes "hasNext (iterator s)" "readArgumentsBody s = Inr s'"
  shows "(iterator s', iterator s) \<in> remaining"
proof -
  obtain ch it1 where n: "nextCode (iterator s) = (ch, it1)" by (cases "nextCode (iterator s)")
  with assms(1) have r: "(it1, iterator s) \<in> remaining"
    using nextCode_remaining [of "iterator s"] by simp
  show ?thesis
  proof (cases "(ch = DOUBLE_QUOTE \<or> ch = SINGLE_QUOTE) \<and> ch \<noteq> LEFT_PAREN \<and> ch \<noteq> RIGHT_PAREN
                 \<and> ch \<noteq> LEFT_BRACE \<and> ch \<noteq> RIGHT_BRACE \<and> ch \<noteq> LEFT_BRACKET
                 \<and> ch \<noteq> RIGHT_BRACKET")
    case True
    obtain it2 c2 where q:
      "readQuoted it1 ch (fromCharCode ch # fromCharCode ch # currArg s) = (it2, c2)"
      by (cases "readQuoted it1 ch (fromCharCode ch # fromCharCode ch # currArg s)")
    from True n q assms(2) have "iterator s' = it2"
      by (auto simp: readArgumentsBody_def Let_def)
    with readQuoted_remaining [OF q] r show ?thesis by (auto intro: remaining_trans)
  next
    case False
    with n assms(2) have "iterator s' = it1"
      by (auto simp: readArgumentsBody_def Let_def split: if_splits)
    with r show ?thesis by simp
  qed
qed

function readArgumentsLoop :: "readState \<Rightarrow> string list" where
  "readArgumentsLoop s =
     (if hasNext (iterator s)
      then (case readArgumentsBody s of Inl r \<Rightarrow> r | Inr s' \<Rightarrow> readArgumentsLoop s')
      else [])"
  by pat_completeness auto
termination
proof (relation "inv_image remaining iterator", goal_cases)
  case 1
  then show ?case by (simp add: wf_remaining)
next
  case (2 s s')
  then show ?case by (simp add: readArgumentsBody_remaining)
qed

declare readArgumentsLoop.simps [simp del]

definition initialReadState :: "BackwardIterator \<Rightarrow> readState" where
  "initialReadState it =
     \<lparr>iterator = it, parenNesting = 0, bracketNesting = 0, braceNesting = 0,
      allArgs = [], currArg = []\<rparr>"

definition readArguments :: "BackwardIterator \<Rightarrow> string list" where
  "readArguments it = readArgumentsLoop (initialReadState it)"

text \<open>The states in which the iterations of the loop of \<^verbatim>\<open>readArguments\<close> start.\<close>

function readStates :: "readState \<Rightarrow> readState list" where
  "readStates s =
     (if hasNext (iterator s)
      then (case readArgumentsBody s of Inl r \<Rightarrow> [s] | Inr s' \<Rightarrow> s # readStates s')
      else [s])"
  by pat_completeness auto
termination
proof (relation "inv_image remaining iterator", goal_cases)
  case 1
  then show ?case by (simp add: wf_remaining)
next
  case (2 s s')
  then show ?case by (simp add: readArgumentsBody_remaining)
qed

declare readStates.simps [simp del]

text \<open>
  The state of the loop in which \<^verbatim>\<open>readArguments\<close> returns its arguments: the next
  character is an opening parenthesis and it makes \<^verbatim>\<open>parenNesting\<close> negative.
\<close>

definition reachesOpeningParen :: "readState \<Rightarrow> bool" where
  "reachesOpeningParen s =
     (hasNext (iterator s) \<and> fst (nextCode (iterator s)) = LEFT_PAREN \<and> parenNesting s - 1 < 0)"

text \<open>
  Two iterators on one-line documents: one placed on the last character of
  \<^verbatim>\<open>foo(a, b(c, d), e\<close>, one on the last character of \<^verbatim>\<open>a, b(c, d), e\<close>, where no
  parenthesis is left open.
\<close>

definition openedIterator :: BackwardIterator where
  "openedIterator =
     \<lparr>documentLines = [''foo(a, b(c, d), e''], lineNumber = 0, lineCharacterOffset = 16,
      iteratorLineText = ''foo(a, b(c, d), e''\<rparr>"

definition unopenedIterator :: BackwardIterator where
  "unopenedIterator =
     \<lparr>documentLines = [''a, b(c, d), e''], lineNumber = 0, lineCharacterOffset = 12,
      iteratorLineText = ''a, b(c, d), e''\<rparr>"

section \<open>Results on component parsing and path resolution\<close>

text \<open>
  Claim C1 (a truthy \<^verbatim>\<open>persistent\<close> attribute forces \<^verbatim>\<open>accessors = true\<close>). The loop that
  applies the attributes runs over the property names of the component, and
  \<^verbatim>\<open>persistent\<close> is not one of them: its branch is never reached. On the tag component of
  the specification's scenario, whose \<^verbatim>\<open>persistent\<close> attribute is \<^verbatim>\<open>true\<close> and which has no
  \<^verbatim>\<open>accessors\<close> attribute, \<^verbatim>\<open>parseComponent\<close> returns a component whose \<^verbatim>\<open>accessors\<close> is
  false.
\<close>

theorem parseComponent_persistent_accessors_false:
  "\<exists>component. parseComponent scenarioExternals scenarioDocument = Inr (Some component)
     \<and> getProp (processAttributes (isTruthy scenarioExternals)
                  (parseAttributes scenarioExternals scenarioDocument
                     \<lparr>start = \<lparr>line = 0, character = 12\<rparr>,
                      endp = \<lparr>line = 0, character = 49\<rparr>\<rparr>)) ''persistent''
         = JBool True
     \<and> getProp component ''isScript'' = JBool False
     \<and> getProp component ''accessors'' = JBool False"
  by (simp add: parseComponent_def scenarioExternals_def scenarioDocument_def scenarioResolver_def
      strTruthy_def strLength_def COMPONENT_EXT_def positionAt_def Range_def isBefore_def
      objectAssign_def processAttributes_def processDocBlock_def booleanAttributes_def
      extendsRangeOf_def getComponentNameFromDotPath_def translate_def getOwnPropertyNames_def
      applyAttribute_def getProp_def componentPathToUri_def replaceDots_def NEW_LINE_def)

text \<open>
  Claim C7 (an unresolved component path is the non-fatal outcome not-found, also for a
  referencing file outside every workspace folder). After a cache miss, when the file does
  not exist beside the referencing file and the referencing file belongs to no workspace
  folder, \<^verbatim>\<open>componentPathToUri\<close> reads \<^verbatim>\<open>root.uri\<close> of \<^verbatim>\<open>undefined\<close> and throws, whatever
  the dot path and the referencing file are.
\<close>

theorem componentPathToUri_no_workspace_folder_throws:
  "componentPathToUri
     (env\<lparr>cachedComponentPathToUri := (\<lambda>dotPath baseUri. None),
          existsSync := (\<lambda>path. False),
          getWorkspaceFolder := (\<lambda>uri. None)\<rparr>)
     dotPath baseUri
   = Inl TypeError"
  by (simp add: componentPathToUri_def)

text \<open>
  Claim C8 (the complement of a sorted, non-overlapping list of ranges). The document
  \<^verbatim>\<open>0123456789\<close> with the single range from character 2 to character 4: the complement
  is characters 0 to 2 and 4 to 10. \<^verbatim>\<open>invertRanges\<close> returns characters 0 to 2 and then the
  whole line, 0 to 10, which contains the given range.
\<close>

theorem invertRanges_not_complement:
  "invertRanges ''0123456789''
     [\<lparr>start = \<lparr>line = 0, character = 2\<rparr>, endp = \<lparr>line = 0, character = 4\<rparr>\<rparr>]
   = [\<lparr>start = \<lparr>line = 0, character = 0\<rparr>, endp = \<lparr>line = 0, character = 2\<rparr>\<rparr>,
      \<lparr>start = \<lparr>line = 0, character = 0\<rparr>, endp = \<lparr>line = 0, character = 10\<rparr>\<rparr>]"
  by (simp add: invertRanges_def positionAt_def Range_def isEqual_def isBefore_def NEW_LINE_def)

section \<open>Results on readArguments\<close>

lemma readArgumentsBody_returns:
  "fst (nextCode (iterator s)) = LEFT_PAREN \<Longrightarrow> parenNesting s - 1 < 0
   \<Longrightarrow> readArgumentsBody s = Inl (trim (concat (currArg s)) # allArgs s)"
  by (cases "nextCode (iterator s)") (simp add: readArgumentsBody_def Let_def)

lemma readArgumentsBody_continues:
  "\<not> (fst (nextCode (iterator s)) = LEFT_PAREN \<and> parenNesting s - 1 < 0)
   \<Longrightarrow> \<exists>s'. readArgumentsBody s = Inr s'"
  by (cases "nextCode (iterator s)")
     (auto simp: readArgumentsBody_def Let_def split: prod.splits)

lemma readArgumentsLoop_find:
  "readArgumentsLoop s =
     (case find reachesOpeningParen (readStates s) of
        None \<Rightarrow> []
      | Some s' \<Rightarrow> trim (concat (currArg s')) # allArgs s')"
proof (induction s rule: readArgumentsLoop.induct)
  case (1 s)
  show ?case
  proof (cases "hasNext (iterator s)")
    case False
    then show ?thesis
      by (simp add: readArgumentsLoop.simps [of s] readStates.simps [of s] reachesOpeningParen_def)
  next
    case True
    show ?thesis
    proof (cases "fst (nextCode (iterator s)) = LEFT_PAREN \<and> parenNesting s - 1 < 0")
      case True
      with \<open>hasNext (iterator s)\<close> readArgumentsBody_returns [of s] show ?thesis
        by (simp add: readArgumentsLoop.simps [of s] readStates.simps [of s]
            reachesOpeningParen_def)
    next
      case False
      then obtain s' where b: "readArgumentsBody s = Inr s'"
        using readArgumentsBody_continues by blast
      from False have n: "\<not> reachesOpeningParen s" by (simp add: reachesOpeningParen_def)
      from "1.IH" [OF True b] True b n show ?thesis
        by (simp add: readArgumentsLoop.simps [of s] readStates.simps [of s])
    qed
  qed
qed

text \<open>
  Claim C10 (\<^verbatim>\<open>readArguments\<close> returns a non-empty list only at the unmatched opening
  parenthesis). The loop returns in the first state in which the next character is an
  opening parenthesis that makes \<^verbatim>\<open>parenNesting\<close> negative, with the trimmed current argument
  before the arguments collected so far; when the iterator is exhausted and no state of the
  loop was such a state, it returns the empty list, whatever was collected.
\<close>

theorem readArguments_empty_unless_opening_paren:
  "((\<forall>s \<in> set (readStates (initialReadState it)). \<not> reachesOpeningParen s)
      \<longrightarrow> readArguments it = [])
   \<and> (readArguments it \<noteq> []
      \<longrightarrow> (\<exists>s \<in> set (readStates (initialReadState it)).
             reachesOpeningParen s
             \<and> readArguments it = trim (concat (currArg s)) # allArgs s))"
proof -
  let ?ss = "readStates (initialReadState it)"
  have e: "readArguments it =
     (case find reachesOpeningParen ?ss of
        None \<Rightarrow> []
      | Some s' \<Rightarrow> trim (concat (currArg s')) # allArgs s')"
    unfolding readArguments_def by (rule readArgumentsLoop_find)
  show ?thesis
  proof (cases "find reachesOpeningParen ?ss")
    case None
    with e show ?thesis by simp
  next
    case (Some s')
    then have "s' \<in> set ?ss" "reachesOpeningParen s'"
      by (auto simp: find_Some_iff)
    with e Some show ?thesis by auto
  qed
qed

theorem readArguments_empty_unless_opening_paren_witness:
  "newBackwardIterator ''a, b(c, d), e'' \<lparr>line = 0, character = 12\<rparr> = Inr unopenedIterator
   \<and> list_all (\<lambda>s. \<not> reachesOpeningParen s) (readStates (initialReadState unopenedIterator))
   \<and> readArguments unopenedIterator = []
   \<and> newBackwardIterator ''foo(a, b(c, d), e'' \<lparr>line = 0, character = 16\<rparr> = Inr openedIterator
   \<and> readArguments openedIterator = [''a'', ''b(c, d)'', ''e'']
   \<and> list_ex (\<lambda>s. reachesOpeningParen s \<and> allArgs s = [''b(c, d)'', ''e''])
        (readStates (initialReadState openedIterator))"
proof -
  have a: "list_all (\<lambda>s. \<not> reachesOpeningParen s) (readStates (initialReadState unopenedIterator))"
    by code_simp
  then have "\<forall>s \<in> set (readStates (initialReadState unopenedIterator)). \<not> reachesOpeningParen s"
    by (simp add: list_all_iff)
  with readArguments_empty_unless_opening_paren [of unopenedIterator]
  have b: "readArguments unopenedIterator = []" by blast
  have c: "readArguments openedIterator = [''a'', ''b(c, d)'', ''e'']"
    by code_simp
  then have "readArguments openedIterator \<noteq> []" by simp
  with readArguments_empty_unless_opening_paren [of openedIterator] c
  obtain s where s: "s \<in> set (readStates (initialReadState openedIterator))"
    "reachesOpeningParen s" "trim (concat (currArg s)) # allArgs s = [''a'', ''b(c, d)'', ''e'']"
    by auto
  then have d: "list_ex (\<lambda>s. reachesOpeningParen s \<and> allArgs s = [''b(c, d)'', ''e''])
        (readStates (initialReadState openedIterator))"
    by (auto simp: list_ex_iff)
  have e: "newBackwardIterator ''a, b(c, d), e'' \<lparr>line = 0, character = 12\<rparr> = Inr unopenedIterator"
    by code_simp
  have f: "newBackwardIterator ''foo(a, b(c, d), e'' \<lparr>line = 0, character = 16\<rparr> = Inr openedIterator"
    by code_simp
  from a b c d e f show ?thesis by blast
qed

section \<open>Results on the string context of the forward scans\<close>

lemma forLoop_unfold:
  "forLoop body endOffset offset s =
     (if offset < endOffset
      then (case body offset s of
              Inl r \<Rightarrow> Inl r
            | Inr s' \<Rightarrow> forLoop body endOffset (Suc offset) s')
      else Inr s)"
  by (rule forLoop.simps)

lemma loopStates_invariant:
  "P s \<Longrightarrow> (\<And>k t t'. P t \<Longrightarrow> body k t = Inr t' \<Longrightarrow> P t')
   \<Longrightarrow> \<forall>x \<in> set (loopStates body endOffset offset s). P x"
proof (induction body endOffset offset s rule: loopStates.induct)
  case (1 body endOffset offset s)
  show ?case
  proof (cases "offset < endOffset")
    case False
    with "1.prems"(1) show ?thesis by (simp add: loopStates.simps [of body endOffset offset s])
  next
    case True
    show ?thesis
    proof (cases "body offset s")
      case (Inl r)
      with True "1.prems"(1) show ?thesis
        by (simp add: loopStates.simps [of body endOffset offset s])
    next
      case (Inr s')
      from "1.prems"(2) [OF "1.prems"(1) Inr] have "P s'" .
      from "1.IH" [OF True Inr this "1.prems"(2)] True Inr "1.prems"(1) show ?thesis
        by (simp add: loopStates.simps [of body endOffset offset s])
    qed
  qed
qed

lemma inStringStep_invariant:
  "stringContextInvariant c \<Longrightarrow> inString c \<Longrightarrow> stringContextInvariant (inStringStep c ch)"
  by (simp add: stringContextInvariant_def inStringStep_def noString_def)

lemma openString_invariant: "stringContextInvariant (openString ch)"
  by (simp add: stringContextInvariant_def openString_def)

lemma noString_invariant: "stringContextInvariant noString"
  by (simp add: stringContextInvariant_def noString_def)

lemma closingBody_invariant:
  "stringContextInvariant (closingStringContext s)
   \<Longrightarrow> closingBody documentText openingChar closingChar offset s = Inr s'
   \<Longrightarrow> stringContextInvariant (closingStringContext s')"
  by (auto simp: closingBody_def Let_def inStringStep_invariant openString_invariant
      split: if_splits)

lemma nextCharacterBody_invariant:
  "stringContextInvariant (nextStringContext s)
   \<Longrightarrow> nextCharacterBody documentText searchChar includeChar offset s = Inr s'
   \<Longrightarrow> stringContextInvariant (nextStringContext s')"
  by (auto simp: nextCharacterBody_def Let_def inStringStep_invariant openString_invariant
      split: if_splits)

lemma iteratedBody_stringContext:
  "iteratedBody rules documentText isScript offset s = Inr s'
   \<Longrightarrow> stringContext s' =
       (if inComment (commentContext s) then stringContext s
        else if inString (stringContext s)
        then inStringStep (stringContext s) (charAt documentText offset)
        else if isScript \<and> isStringDelimiter (charAt documentText offset)
        then openString (charAt documentText offset)
        else stringContext s)"
  by (auto simp: iteratedBody_def Let_def newRange_def
      split: if_splits option.splits sum.splits)

lemma iteratedBody_invariant:
  "stringContextInvariant (stringContext s)
   \<Longrightarrow> iteratedBody rules documentText isScript offset s = Inr s'
   \<Longrightarrow> stringContextInvariant (stringContext s')"
  by (drule iteratedBody_stringContext)
     (auto simp: inStringStep_invariant openString_invariant split: if_splits)

text \<open>
  Claim C9 (the embedded-expression flag of the string context). In the accurate comment
  scan, in \<^verbatim>\<open>getNextCharacterPosition\<close> and in \<^verbatim>\<open>getClosingPosition\<close>, every state in which
  an iteration starts, and the state after the last one, has \<^verbatim>\<open>embeddedCFML\<close> true only if
  \<^verbatim>\<open>inString\<close> is true. Inside a string (and, in the comment scan, outside a comment) each
  scan moves the string context by \<open>inStringStep\<close>: the character \<^verbatim>\<open>#\<close> toggles
  \<^verbatim>\<open>embeddedCFML\<close> and leaves the string open with its delimiter; any other character
  closes the string exactly when \<^verbatim>\<open>embeddedCFML\<close> is false and the character is the active
  delimiter.
\<close>

theorem stringContext_embeddedCFML_only_inString:
  "(\<forall>s \<in> set (loopStates (iteratedBody rules documentText isScript) textOffsetEnd textOffsetStart
                  initialIteratedState).
      stringContextInvariant (stringContext s))
   \<and> (\<forall>s \<in> set (loopStates (nextCharacterBody documentText searchChar includeChar) endOffset
                    startOffset initialNextCharacterState).
      stringContextInvariant (nextStringContext s))
   \<and> (\<forall>s \<in> set (loopStates (closingBody documentText openingChar closingChar)
                    (length documentText) initialOffset initialClosingState).
      stringContextInvariant (closingStringContext s))
   \<and> (\<not> inComment (commentContext i) \<and> inString (stringContext i)
        \<and> iteratedBody rules documentText isScript offset i = Inr i'
      \<longrightarrow> stringContext i' = inStringStep (stringContext i) (charAt documentText offset))
   \<and> (inString (nextStringContext n)
      \<longrightarrow> nextCharacterBody documentText searchChar includeChar offset n
          = Inr (n\<lparr>nextStringContext :=
                     inStringStep (nextStringContext n) (charAt documentText offset)\<rparr>))
   \<and> (inString (closingStringContext c)
      \<longrightarrow> closingBody documentText openingChar closingChar offset c
          = Inr (c\<lparr>closingStringContext :=
                     inStringStep (closingStringContext c) (charAt documentText offset)\<rparr>))
   \<and> (inString sc
      \<longrightarrow> inString (inStringStep sc embeddedCFMLDelimiter)
          \<and> activeStringDelimiter (inStringStep sc embeddedCFMLDelimiter) = activeStringDelimiter sc
          \<and> embeddedCFML (inStringStep sc embeddedCFMLDelimiter) = (\<not> embeddedCFML sc))
   \<and> (inString sc \<and> ch \<noteq> embeddedCFMLDelimiter
      \<longrightarrow> inStringStep sc ch
          = (if \<not> embeddedCFML sc \<and> Some ch = activeStringDelimiter sc then noString else sc))"
proof -
  have a: "\<forall>s \<in> set (loopStates (iteratedBody rules documentText isScript) textOffsetEnd
                 textOffsetStart initialIteratedState).
      stringContextInvariant (stringContext s)"
    by (rule loopStates_invariant [where P = "\<lambda>s. stringContextInvariant (stringContext s)"])
       (simp_all add: initialIteratedState_def noString_invariant iteratedBody_invariant)
  have b: "\<forall>s \<in> set (loopStates (nextCharacterBody documentText searchChar includeChar) endOffset
                    startOffset initialNextCharacterState).
      stringContextInvariant (nextStringContext s)"
    by (rule loopStates_invariant [where P = "\<lambda>s. stringContextInvariant (nextStringContext s)"])
       (simp_all add: initialNextCharacterState_def noString_invariant nextCharacterBody_invariant)
  have c: "\<forall>s \<in> set (loopStates (closingBody documentText openingChar closingChar)
                    (length documentText) initialOffset initialClosingState).
      stringContextInvariant (closingStringContext s)"
    by (rule loopStates_invariant [where P = "\<lambda>s. stringContextInvariant (closingStringContext s)"])
       (simp_all add: initialClosingState_def noString_invariant closingBody_invariant)
  have d: "\<not> inComment (commentContext i) \<and> inString (stringContext i)
        \<and> iteratedBody rules documentText isScript offset i = Inr i'
      \<longrightarrow> stringContext i' = inStringStep (stringContext i) (charAt documentText offset)"
    by (auto dest: iteratedBody_stringContext)
  have e: "inString (nextStringContext n)
      \<longrightarrow> nextCharacterBody documentText searchChar includeChar offset n
          = Inr (n\<lparr>nextStringContext :=
                     inStringStep (nextStringContext n) (charAt documentText offset)\<rparr>)"
    by (simp add: nextCharacterBody_def)
  have f: "inString (closingStringContext c)
      \<longrightarrow> closingBody documentText openingChar closingChar offset c
          = Inr (c\<lparr>closingStringContext :=
                     inStringStep (closingStringContext c) (charAt documentText offset)\<rparr>)"
    by (simp add: closingBody_def)
  have g: "inString sc
      \<longrightarrow> inString (inStringStep sc embeddedCFMLDelimiter)
          \<and> activeStringDelimiter (inStringStep sc embeddedCFMLDelimiter) = activeStringDelimiter sc
          \<and> embeddedCFML (inStringStep sc embeddedCFMLDelimiter) = (\<not> embeddedCFML sc)"
    by (simp add: inStringStep_def)
  have h: "inString sc \<and> ch \<noteq> embeddedCFMLDelimiter
      \<longrightarrow> inStringStep sc ch
          = (if \<not> embeddedCFML sc \<and> Some ch = activeStringDelimiter sc then noString else sc)"
    by (simp add: inStringStep_def)
  from a b c d e f g h show ?thesis by blast
qed

theorem stringContext_embeddedCFML_only_inString_witness:
  "list_all (\<lambda>s. stringContextInvariant (stringContext s))
     (loopStates (iteratedBody cfmlCommentRules embeddedText True) (length embeddedText) 0
        initialIteratedState)
   \<and> list_all (\<lambda>s. stringContextInvariant (nextStringContext s))
     (loopStates (nextCharacterBody embeddedText [''}''] True) (length embeddedText) 0
        initialNextCharacterState)
   \<and> list_all (\<lambda>s. stringContextInvariant (closingStringContext s))
     (loopStates (closingBody embeddedText ''{'' ''}'') (length embeddedText) 0
        initialClosingState)
   \<and> list_ex (\<lambda>s. embeddedCFML (closingStringContext s) \<and> inString (closingStringContext s))
     (loopStates (closingBody embeddedText ''{'' ''}'') (length embeddedText) 0
        initialClosingState)
   \<and> closingBody embeddedText ''{'' ''}'' 2
        \<lparr>unclosedPairs = 0, closingStringContext = openString [CHR 0x22]\<rparr>
      = Inr \<lparr>unclosedPairs = 0,
             closingStringContext = \<lparr>inString = True, activeStringDelimiter = Some [CHR 0x22],
                                     embeddedCFML = True\<rparr>\<rparr>
   \<and> inStringStep \<lparr>inString = True, activeStringDelimiter = Some [CHR 0x22], embeddedCFML = True\<rparr>
        [CHR 0x22]
      = \<lparr>inString = True, activeStringDelimiter = Some [CHR 0x22], embeddedCFML = True\<rparr>
   \<and> inStringStep (openString [CHR 0x22]) [CHR 0x22] = noString"
proof -
  note t = stringContext_embeddedCFML_only_inString
    [where rules = cfmlCommentRules and documentText = embeddedText and isScript = True
       and textOffsetEnd = "length embeddedText" and textOffsetStart = 0
       and searchChar = "[''}'']" and includeChar = True
       and endOffset = "length embeddedText" and startOffset = 0
       and openingChar = "''{''" and closingChar = "''}''" and initialOffset = 0
       and offset = 2
       and c = "\<lparr>unclosedPairs = 0, closingStringContext = openString [CHR 0x22]\<rparr>"]
  have a: "list_all (\<lambda>s. stringContextInvariant (stringContext s))
     (loopStates (iteratedBody cfmlCommentRules embeddedText True) (length embeddedText) 0
        initialIteratedState)"
    using t by (simp add: list_all_iff)
  have b: "list_all (\<lambda>s. stringContextInvariant (nextStringContext s))
     (loopStates (nextCharacterBody embeddedText [''}''] True) (length embeddedText) 0
        initialNextCharacterState)"
    using t by (simp add: list_all_iff)
  have c: "list_all (\<lambda>s. stringContextInvariant (closingStringContext s))
     (loopStates (closingBody embeddedText ''{'' ''}'') (length embeddedText) 0
        initialClosingState)"
    using t by (simp add: list_all_iff)
  have d: "list_ex (\<lambda>s. embeddedCFML (closingStringContext s) \<and> inString (closingStringContext s))
     (loopStates (closingBody embeddedText ''{'' ''}'') (length embeddedText) 0
        initialClosingState)"
    by code_simp
  have e: "closingBody embeddedText ''{'' ''}'' 2
        \<lparr>unclosedPairs = 0, closingStringContext = openString [CHR 0x22]\<rparr>
      = Inr \<lparr>unclosedPairs = 0,
             closingStringContext = \<lparr>inString = True, activeStringDelimiter = Some [CHR 0x22],
                                     embeddedCFML = True\<rparr>\<rparr>"
    using t
    by (simp add: openString_def inStringStep_def embeddedText_def charAt_def
        embeddedCFMLDelimiter_def)
  have f: "inStringStep \<lparr>inString = True, activeStringDelimiter = Some [CHR 0x22], embeddedCFML = True\<rparr>
        [CHR 0x22]
      = \<lparr>inString = True, activeStringDelimiter = Some [CHR 0x22], embeddedCFML = True\<rparr>"
    using stringContext_embeddedCFML_only_inString
      [where sc = "\<lparr>inString = True, activeStringDelimiter = Some [CHR 0x22], embeddedCFML = True\<rparr>"
         and ch = "[CHR 0x22]"]
    by (simp add: embeddedCFMLDelimiter_def)
  have g: "inStringStep (openString [CHR 0x22]) [CHR 0x22] = noString"
    using stringContext_embeddedCFML_only_inString
      [where sc = "openString [CHR 0x22]" and ch = "[CHR 0x22]"]
    by (simp add: embeddedCFMLDelimiter_def openString_def)
  from a b c d e f g show ?thesis by blast
qed

section \<open>Results on getClosingPosition and getNextCharacterPosition\<close>

subsection \<open>getClosingPosition\<close>

lemma inString_stringContextOf: "inString (stringContextOf q) = (q \<noteq> OutsideString)"
  by (cases q) (simp_all add: noString_def)

lemma inStringStep_stringContextOf:
  "inStringStep (stringContextOf (InsideString d e)) [c]
     = stringContextOf (specStringStep (InsideString d e) c)"
  by (simp add: inStringStep_def embeddedCFMLDelimiter_def)

lemma closingBody_spec_step:
  assumes "k < length doc" and "opn \<noteq> cls"
  shows "closingBody doc [opn] [cls] k
           \<lparr>unclosedPairs = depth, closingStringContext = stringContextOf q\<rparr>
         = (case q of
              InsideString d e \<Rightarrow>
                Inr \<lparr>unclosedPairs = depth,
                     closingStringContext = stringContextOf (specStringStep q (doc ! k))\<rparr>
            | OutsideString \<Rightarrow>
                (if doc ! k = CHR 0x22 \<or> doc ! k = CHR 0x27
                 then Inr \<lparr>unclosedPairs = depth,
                           closingStringContext = stringContextOf (InsideString (doc ! k) False)\<rparr>
                 else if doc ! k = opn
                 then Inr \<lparr>unclosedPairs = Suc depth, closingStringContext = stringContextOf q\<rparr>
                 else if doc ! k = cls
                 then (if depth = 0 then Inl (Suc k)
                       else Inr \<lparr>unclosedPairs = depth - 1,
                                 closingStringContext = stringContextOf q\<rparr>)
                 else Inr \<lparr>unclosedPairs = depth, closingStringContext = stringContextOf q\<rparr>))"
proof (cases q)
  case OutsideString
  then show ?thesis
    using assms
    by (auto simp add: closingBody_def charAt_def noString_def isStringDelimiter_def
        openString_def)
next
  case (InsideString d e)
  then show ?thesis
    using assms inStringStep_stringContextOf [of d e "doc ! k"]
    by (simp add: closingBody_def charAt_def)
qed

lemma forLoop_closingBody_spec:
  assumes "opn \<noteq> cls"
  shows "(case forLoop (closingBody doc [opn] [cls]) (length doc) k
                 \<lparr>unclosedPairs = depth, closingStringContext = stringContextOf q\<rparr> of
            Inl r \<Rightarrow> Some r | Inr s \<Rightarrow> None)
         = map_option Suc (specClosingPair opn cls (drop k doc) k q depth)"
proof (induction "length doc - k" arbitrary: k q depth)
  case 0
  then show ?case by (simp add: forLoop.simps)
next
  case (Suc n)
  then have k: "k < length doc" and n: "n = length doc - Suc k" by simp_all
  have d: "drop k doc = doc ! k # drop (Suc k) doc"
    using k by (simp add: Cons_nth_drop_Suc)
  note ih = Suc.hyps(1) [OF n]
  note step = closingBody_spec_step [OF k assms, of depth q]
  show ?case
  proof (cases q)
    case OutsideString
    then show ?thesis
      using k assms ih [of depth OutsideString] ih [of "Suc depth" OutsideString]
        ih [of "depth - 1" OutsideString] ih [of depth "InsideString (doc ! k) False"] step
      by (subst forLoop.simps) (simp add: d del: stringContextOf.simps)
  next
    case (InsideString dl e)
    then show ?thesis
      using k assms ih [of depth "specStringStep (InsideString dl e) (doc ! k)"] step
      by (subst forLoop.simps) (simp add: d del: stringContextOf.simps specStringStep.simps)
  qed
qed

lemma specClosingPair_skip:
  assumes "opn \<noteq> cls"
    and "list_all (\<lambda>c. c \<noteq> CHR 0x22 \<and> c \<noteq> CHR 0x27) w"
    and "\<forall>n\<le>length w. count_list (take n w) cls \<le> depth + count_list (take n w) opn"
  shows "specClosingPair opn cls (w @ rest) k OutsideString depth
         = specClosingPair opn cls rest (k + length w) OutsideString
             (depth + count_list w opn - count_list w cls)"
  using assms(2,3)
proof (induction w arbitrary: depth k)
  case Nil
  then show ?case by simp
next
  case (Cons c w)
  have quotes: "c \<noteq> CHR 0x22" "c \<noteq> CHR 0x27"
    and rest: "list_all (\<lambda>c. c \<noteq> CHR 0x22 \<and> c \<noteq> CHR 0x27) w"
    using Cons.prems(1) by simp_all
  have pre: "count_list (c # take n w) cls \<le> depth + count_list (c # take n w) opn"
    if "n \<le> length w" for n
    using Cons.prems(2) [rule_format, of "Suc n"] that by simp
  consider (opn) "c = opn" | (cls) "c = cls" | (other) "c \<noteq> opn" "c \<noteq> cls"
    by blast
  then show ?case
  proof cases
    case opn
    have "\<forall>n\<le>length w. count_list (take n w) cls \<le> Suc depth + count_list (take n w) opn"
      using pre opn assms(1) by fastforce
    from Cons.IH [OF rest this, of "Suc k"] show ?thesis
      using opn assms(1) quotes by simp
  next
    case cls
    have pos: "0 < depth"
      using pre [of 0] cls assms(1) by simp
    have "\<forall>n\<le>length w. count_list (take n w) cls \<le> (depth - 1) + count_list (take n w) opn"
      using pre cls assms(1) pos by fastforce
    from Cons.IH [OF rest this, of "Suc k"] show ?thesis
      using cls assms(1) quotes pos pre [of "length w"] by simp
  next
    case other
    have "\<forall>n\<le>length w. count_list (take n w) cls \<le> depth + count_list (take n w) opn"
      using pre other by fastforce
    from Cons.IH [OF rest this, of "Suc k"] show ?thesis
      using other quotes by simp
  qed
qed

lemma bracketPairs_opening:
  "(opn, cls) \<in> set bracketPairs \<Longrightarrow>
     opn \<noteq> cls \<and> getOpeningChar [cls] = [opn] \<and> cls \<noteq> CHR 0x22 \<and> cls \<noteq> CHR 0x27"
  by (auto simp add: bracketPairs_def getOpeningChar_def getCharacterPair_def
      characterPairs_def)

lemma getClosingPosition_spec:
  assumes "(opn, cls) \<in> set bracketPairs"
  shows "getClosingPosition dsc i [cls]
         = (case specClosingPair opn cls (drop i (sanitizedDocumentText dsc)) i OutsideString 0 of
              Some k \<Rightarrow> positionAt (document dsc) (Suc k)
            | None \<Rightarrow> positionAt (document dsc) i)"
proof -
  from bracketPairs_opening [OF assms]
  have ne: "opn \<noteq> cls" and op: "getOpeningChar [cls] = [opn]" by simp_all
  have init: "initialClosingState
              = \<lparr>unclosedPairs = 0, closingStringContext = stringContextOf OutsideString\<rparr>"
    by (simp add: initialClosingState_def)
  show ?thesis
    using forLoop_closingBody_spec [OF ne, of "sanitizedDocumentText dsc" i 0 OutsideString]
    unfolding getClosingPosition_def Let_def op init
    by (auto split: sum.splits option.splits)
qed

lemma all_prefixes:
  "list_all P [0..<Suc (length w)] = (\<forall>n\<le>length w. P n)"
  by (auto simp add: list_all_iff less_Suc_eq_le)

text \<open>
  Claim C6 as it is stated, for the pairs whose closing character is their opening character.
  The pairs of the code include \<^verbatim>\<open>#\<close> \<^verbatim>\<open>#\<close> and the two quote pairs. In \<^verbatim>\<open>#a# b\<close>, scanned
  from just after the opening \<^verbatim>\<open>#\<close> for the closing \<^verbatim>\<open>#\<close>, the matching close is at offset 2
  and the position after it is that of offset 3; the call returns the position of the initial
  offset 1, as it does for the single quote in \<^verbatim>\<open>'a' b\<close>: the character that is read counts as
  an opening character, or opens a string, before it is compared with the closing character.
\<close>

theorem getClosingPosition_same_character_pair_counterexample:
  "(''#'', ''#'') \<in> set characterPairs
   \<and> getClosingPosition \<lparr>document = ''#a# b'', sanitizedDocumentText = ''#a# b''\<rparr> 1 ''#''
      = \<lparr>line = 0, character = 1\<rparr>
   \<and> positionAt ''#a# b'' 3 = \<lparr>line = 0, character = 3\<rparr>
   \<and> ([CHR 0x27], [CHR 0x27]) \<in> set characterPairs
   \<and> getClosingPosition \<lparr>document = [CHR 0x27] @ ''a'' @ [CHR 0x27] @ '' b'',
                           sanitizedDocumentText = [CHR 0x27] @ ''a'' @ [CHR 0x27] @ '' b''\<rparr>
        1 [CHR 0x27]
      = \<lparr>line = 0, character = 1\<rparr>"
  by code_simp

text \<open>
  Claim C6, for the pairs whose closing character differs from the opening one (braces,
  brackets, parentheses and angle brackets): \<^verbatim>\<open>getClosingPosition\<close> returns the position just
  after the offset that the scan of the specification finds from the initial offset, with no
  pair unclosed and outside a string at the start, and the position of the initial offset
  when it finds none. In particular, when the text from the initial offset is a balanced
  text without string delimiters followed by the closing character, the result is the
  position just after that closing character; and when the text from the initial offset
  has no string delimiter and no prefix with more closing than opening characters, the
  result is the position of the initial offset.
\<close>

theorem getClosingPosition_bracket_pair_close:
  "((opn, cls) \<in> set bracketPairs \<longrightarrow>
      getClosingPosition dsc i [cls]
      = (case specClosingPair opn cls (drop i (sanitizedDocumentText dsc)) i OutsideString 0 of
           Some k \<Rightarrow> positionAt (document dsc) (Suc k)
         | None \<Rightarrow> positionAt (document dsc) i))
   \<and> ((opn, cls) \<in> set bracketPairs \<and> sanitizedDocumentText dsc = pre @ w @ cls # rest
        \<and> balancedText opn cls w \<longrightarrow>
      getClosingPosition dsc (length pre) [cls]
      = positionAt (document dsc) (length pre + length w + 1))
   \<and> ((opn, cls) \<in> set bracketPairs \<and> sanitizedDocumentText dsc = pre @ w
        \<and> neverOverClosed opn cls w \<longrightarrow>
      getClosingPosition dsc (length pre) [cls] = positionAt (document dsc) (length pre))"
proof (intro conjI impI)
  assume "(opn, cls) \<in> set bracketPairs"
  then show "getClosingPosition dsc i [cls]
      = (case specClosingPair opn cls (drop i (sanitizedDocumentText dsc)) i OutsideString 0 of
           Some k \<Rightarrow> positionAt (document dsc) (Suc k)
         | None \<Rightarrow> positionAt (document dsc) i)"
    by (rule getClosingPosition_spec)
next
  assume a: "(opn, cls) \<in> set bracketPairs \<and> sanitizedDocumentText dsc = pre @ w @ cls # rest
        \<and> balancedText opn cls w"
  then have ne: "opn \<noteq> cls" and nq: "cls \<noteq> CHR 0x22" "cls \<noteq> CHR 0x27"
    using bracketPairs_opening by blast+
  from a have q: "list_all (\<lambda>c. c \<noteq> CHR 0x22 \<and> c \<noteq> CHR 0x27) w"
    and p: "\<forall>n\<le>length w. count_list (take n w) cls \<le> 0 + count_list (take n w) opn"
    and e: "count_list w opn = count_list w cls"
    unfolding balancedText_def neverOverClosed_def all_prefixes by simp_all
  have "specClosingPair opn cls (w @ cls # rest) (length pre) OutsideString 0
        = Some (length pre + length w)"
    using specClosingPair_skip [OF ne q p, of "cls # rest" "length pre"] ne nq e by simp
  then show "getClosingPosition dsc (length pre) [cls]
      = positionAt (document dsc) (length pre + length w + 1)"
    using a getClosingPosition_spec [of opn cls dsc "length pre"] by simp
next
  assume a: "(opn, cls) \<in> set bracketPairs \<and> sanitizedDocumentText dsc = pre @ w
        \<and> neverOverClosed opn cls w"
  then have ne: "opn \<noteq> cls" using bracketPairs_opening by blast
  from a have q: "list_all (\<lambda>c. c \<noteq> CHR 0x22 \<and> c \<noteq> CHR 0x27) w"
    and p: "\<forall>n\<le>length w. count_list (take n w) cls \<le> 0 + count_list (take n w) opn"
    unfolding neverOverClosed_def all_prefixes by simp_all
  have "specClosingPair opn cls (w @ []) (length pre) OutsideString 0 = None"
    using specClosingPair_skip [OF ne q p, of "[]" "length pre"] by simp
  then show "getClosingPosition dsc (length pre) [cls] = positionAt (document dsc) (length pre)"
    using a getClosingPosition_spec [of opn cls dsc "length pre"] by simp
qed

theorem getClosingPosition_bracket_pair_close_witness:
  "(CHR ''('', CHR '')'') \<in> set bracketPairs
   \<and> getClosingPosition \<lparr>document = ''(a(b)c)'', sanitizedDocumentText = ''(a(b)c)''\<rparr> 1 '')''
      = \<lparr>line = 0, character = 7\<rparr>
   \<and> (CHR ''{'', CHR ''}'') \<in> set bracketPairs
   \<and> getClosingPosition \<lparr>document = nestedBracesText, sanitizedDocumentText = nestedBracesText\<rparr>
        1 ''}''
      = \<lparr>line = 0, character = 17\<rparr>
   \<and> getClosingPosition \<lparr>document = quotedBraceText, sanitizedDocumentText = quotedBraceText\<rparr>
        1 ''}''
      = \<lparr>line = 0, character = 8\<rparr>
   \<and> getClosingPosition
        \<lparr>document = unclosedBraceText, sanitizedDocumentText = unclosedBraceText\<rparr> 1 ''}''
      = \<lparr>line = 0, character = 1\<rparr>
   \<and> nestedBracesText = ''{'' @ ''a: {b: 1}, c: 2'' @ CHR ''}'' # []
   \<and> balancedText CHR ''{'' CHR ''}'' ''a: {b: 1}, c: 2''
   \<and> unclosedBraceText = ''{'' @ ''a: {b: 1}, c: 2''
   \<and> neverOverClosed CHR ''{'' CHR ''}'' ''a: {b: 1}, c: 2''"
proof -
  have paren: "(CHR ''('', CHR '')'') \<in> set bracketPairs"
    and brace: "(CHR ''{'', CHR ''}'') \<in> set bracketPairs"
    by (simp_all add: bracketPairs_def)
  have bal: "balancedText CHR ''{'' CHR ''}'' ''a: {b: 1}, c: 2''"
    and nev: "neverOverClosed CHR ''{'' CHR ''}'' ''a: {b: 1}, c: 2''"
    by code_simp+
  have t1: "nestedBracesText = ''{'' @ ''a: {b: 1}, c: 2'' @ CHR ''}'' # []"
    and t2: "unclosedBraceText = ''{'' @ ''a: {b: 1}, c: 2''"
    by (simp_all add: nestedBracesText_def unclosedBraceText_def)
  have a: "getClosingPosition \<lparr>document = ''(a(b)c)'', sanitizedDocumentText = ''(a(b)c)''\<rparr>
             1 '')'' = \<lparr>line = 0, character = 7\<rparr>"
    using getClosingPosition_bracket_pair_close
      [of "CHR ''(''" "CHR '')''"
        "\<lparr>document = ''(a(b)c)'', sanitizedDocumentText = ''(a(b)c)''\<rparr>" 1] paren
    by (simp add: positionAt_def NEW_LINE_def)
  have b: "getClosingPosition
             \<lparr>document = quotedBraceText, sanitizedDocumentText = quotedBraceText\<rparr> 1 ''}''
           = \<lparr>line = 0, character = 8\<rparr>"
    using getClosingPosition_bracket_pair_close
      [of "CHR ''{''" "CHR ''}''"
        "\<lparr>document = quotedBraceText, sanitizedDocumentText = quotedBraceText\<rparr>" 1] brace
    by (simp add: positionAt_def NEW_LINE_def quotedBraceText_def)
  have c: "getClosingPosition
             \<lparr>document = nestedBracesText, sanitizedDocumentText = nestedBracesText\<rparr> 1 ''}''
           = \<lparr>line = 0, character = 17\<rparr>"
    using getClosingPosition_bracket_pair_close
      [of "CHR ''{''" "CHR ''}''"
        "\<lparr>document = nestedBracesText, sanitizedDocumentText = nestedBracesText\<rparr>" _
        "''{''" "''a: {b: 1}, c: 2''" "[]"] brace bal t1
    by (simp add: positionAt_def NEW_LINE_def nestedBracesText_def)
  have d: "getClosingPosition
             \<lparr>document = unclosedBraceText, sanitizedDocumentText = unclosedBraceText\<rparr> 1 ''}''
           = \<lparr>line = 0, character = 1\<rparr>"
    using getClosingPosition_bracket_pair_close
      [of "CHR ''{''" "CHR ''}''"
        "\<lparr>document = unclosedBraceText, sanitizedDocumentText = unclosedBraceText\<rparr>" _
        "''{''" "''a: {b: 1}, c: 2''"] brace nev t2
    by (simp add: positionAt_def NEW_LINE_def unclosedBraceText_def)
  from paren brace a b c d t1 t2 bal nev show ?thesis by blast
qed

subsection \<open>getNextCharacterPosition\<close>

lemma initialPairContext_pairContextOf: "initialPairContext = pairContextOf 0 0 0"
  by (simp add: initialPairContext_def pairContextOf_def characterPairs_def)

lemma openingPairs_iff:
  "[c] \<in> set (openingPairs searchChar)
     = ([c] \<notin> set searchChar \<and> (c = CHR ''{'' \<or> c = CHR ''['' \<or> c = CHR ''(''))"
  by (auto simp add: openingPairs_def initialPairContext_pairContextOf pairContextOf_def)

lemma closingPairs_iff:
  "[c] \<in> set (closingPairs searchChar)
     = ([c] \<notin> set searchChar \<and> (c = CHR ''}'' \<or> c = CHR '']'' \<or> c = CHR '')''))"
  by (auto simp add: closingPairs_def initialPairContext_pairContextOf pairContextOf_def)

lemma incrementUnclosedPair_pairContextOf:
  "incrementUnclosedPair [c] (pairContextOf b1 b2 b3)
     = pairContextOf (if c = CHR ''{'' then b1 + 1 else b1) (if c = CHR ''['' then b2 + 1 else b2)
         (if c = CHR ''('' then b3 + 1 else b3)"
  by (simp add: incrementUnclosedPair_def pairContextOf_def)

lemma decrementUnclosedPair_pairContextOf:
  "decrementUnclosedPair [c] (pairContextOf b1 b2 b3)
     = pairContextOf (if c = CHR ''}'' then b1 - 1 else b1) (if c = CHR '']'' then b2 - 1 else b2)
         (if c = CHR '')'' then b3 - 1 else b3)"
  by (simp add: decrementUnclosedPair_def pairContextOf_def)

lemma hasNoUnclosedPairs_pairContextOf:
  "hasNoUnclosedPairs (pairContextOf b1 b2 b3) = (b1 = 0 \<and> b2 = 0 \<and> b3 = 0)"
  by (simp add: hasNoUnclosedPairs_def pairContextOf_def)

lemma nextCharacterBody_spec_step:
  assumes "k < length doc"
  shows "nextCharacterBody doc searchChar includeChar k
           \<lparr>nextStringContext = stringContextOf q, pairContext = pairContextOf b1 b2 b3\<rparr>
         = (case q of
              InsideString d e \<Rightarrow>
                Inr \<lparr>nextStringContext = stringContextOf (specStringStep q (doc ! k)),
                     pairContext = pairContextOf b1 b2 b3\<rparr>
            | OutsideString \<Rightarrow>
                (if doc ! k = CHR 0x22 \<or> doc ! k = CHR 0x27
                 then Inr \<lparr>nextStringContext = stringContextOf (InsideString (doc ! k) False),
                           pairContext = pairContextOf b1 b2 b3\<rparr>
                 else if [doc ! k] \<in> set searchChar
                 then (if b1 = 0 \<and> b2 = 0 \<and> b3 = 0
                       then Inl (if includeChar then Suc k else k)
                       else Inr \<lparr>nextStringContext = stringContextOf q,
                                 pairContext = pairContextOf b1 b2 b3\<rparr>)
                 else if doc ! k = CHR ''{''
                 then Inr \<lparr>nextStringContext = stringContextOf q,
                           pairContext = pairContextOf (b1 + 1) b2 b3\<rparr>
                 else if doc ! k = CHR ''}''
                 then Inr \<lparr>nextStringContext = stringContextOf q,
                           pairContext = pairContextOf (b1 - 1) b2 b3\<rparr>
                 else if doc ! k = CHR ''[''
                 then Inr \<lparr>nextStringContext = stringContextOf q,
                           pairContext = pairContextOf b1 (b2 + 1) b3\<rparr>
                 else if doc ! k = CHR '']''
                 then Inr \<lparr>nextStringContext = stringContextOf q,
                           pairContext = pairContextOf b1 (b2 - 1) b3\<rparr>
                 else if doc ! k = CHR ''(''
                 then Inr \<lparr>nextStringContext = stringContextOf q,
                           pairContext = pairContextOf b1 b2 (b3 + 1)\<rparr>
                 else if doc ! k = CHR '')''
                 then Inr \<lparr>nextStringContext = stringContextOf q,
                           pairContext = pairContextOf b1 b2 (b3 - 1)\<rparr>
                 else Inr \<lparr>nextStringContext = stringContextOf q,
                           pairContext = pairContextOf b1 b2 b3\<rparr>))"
proof (cases q)
  case OutsideString
  then show ?thesis
    using assms
    by (simp add: nextCharacterBody_def charAt_def noString_def isStringDelimiter_def
        openString_def openingPairs_iff closingPairs_iff incrementUnclosedPair_pairContextOf
        decrementUnclosedPair_pairContextOf hasNoUnclosedPairs_pairContextOf)
next
  case (InsideString d e)
  then show ?thesis
    using assms inStringStep_stringContextOf [of d e "doc ! k"]
    by (simp add: nextCharacterBody_def charAt_def)
qed

lemma nextCharacterBody_beyond:
  assumes "length doc \<le> k" and "[] \<notin> set searchChar"
  shows "nextCharacterBody doc searchChar includeChar k
           \<lparr>nextStringContext = stringContextOf q, pairContext = pairContextOf b1 b2 b3\<rparr>
         = Inr \<lparr>nextStringContext = stringContextOf q, pairContext = pairContextOf b1 b2 b3\<rparr>"
proof (cases q)
  case OutsideString
  then show ?thesis
    using assms
    by (simp add: nextCharacterBody_def charAt_def noString_def isStringDelimiter_def
        openingPairs_def closingPairs_def initialPairContext_pairContextOf pairContextOf_def)
next
  case (InsideString d e)
  then show ?thesis
    using assms
    by (simp add: nextCharacterBody_def charAt_def inStringStep_def embeddedCFMLDelimiter_def)
qed

lemma forLoop_nextCharacterBody_spec:
  assumes "endOffset \<le> length doc \<or> [] \<notin> set searchChar"
  shows "(case forLoop (nextCharacterBody doc searchChar includeChar) endOffset k
                 \<lparr>nextStringContext = stringContextOf q, pairContext = pairContextOf b1 b2 b3\<rparr> of
            Inl r \<Rightarrow> Some r | Inr s \<Rightarrow> None)
         = map_option (\<lambda>j. if includeChar then Suc j else j)
             (specNextUnnested searchChar (take (endOffset - k) (drop k doc)) k q b1 b2 b3)"
proof (induction "endOffset - k" arbitrary: k q b1 b2 b3)
  case 0
  then show ?case by (simp add: forLoop.simps)
next
  case (Suc n)
  then have k: "k < endOffset" and n: "n = endOffset - Suc k" by simp_all
  note ih = Suc.hyps(1) [OF n]
  show ?case
  proof (cases "k < length doc")
    case True
    have d: "take (endOffset - k) (drop k doc)
             = doc ! k # take (endOffset - Suc k) (drop (Suc k) doc)"
      using True k by (simp add: Cons_nth_drop_Suc [symmetric] take_Suc_Cons [symmetric]
          Suc_diff_Suc del: take_Suc_Cons)
    note step = nextCharacterBody_spec_step [OF True, of searchChar includeChar q b1 b2 b3]
    show ?thesis
    proof (cases q)
      case OutsideString
      then show ?thesis
        using k ih [of OutsideString] ih [of "InsideString (doc ! k) False"] step
        by (subst forLoop.simps) (simp add: d del: stringContextOf.simps)
    next
      case (InsideString dl e)
      then show ?thesis
        using k ih [of "specStringStep (InsideString dl e) (doc ! k)"] step
        by (subst forLoop.simps) (simp add: d del: stringContextOf.simps specStringStep.simps)
    qed
  next
    case False
    then have beyond: "length doc \<le> k" and empty: "[] \<notin> set searchChar"
      using assms k by simp_all
    have "take (endOffset - k) (drop k doc) = []"
      "take (endOffset - Suc k) (drop (Suc k) doc) = []"
      using beyond by simp_all
    then show ?thesis
      using k ih [of q b1 b2 b3] nextCharacterBody_beyond [OF beyond empty, of includeChar q b1 b2 b3]
      by (subst forLoop.simps) (simp del: stringContextOf.simps)
  qed
qed

lemma getNextCharacterPosition_spec:
  assumes "endOffset \<le> length (sanitizedDocumentText dsc) \<or> [] \<notin> set (toSearchChar char)"
  shows "getNextCharacterPosition dsc startOffset endOffset char includeChar
         = (case specNextUnnested (toSearchChar char)
                   (take (endOffset - startOffset) (drop startOffset (sanitizedDocumentText dsc)))
                   startOffset OutsideString 0 0 0 of
              Some k \<Rightarrow> positionAt (document dsc) (if includeChar then Suc k else k)
            | None \<Rightarrow> positionAt (document dsc) endOffset)"
proof -
  have init: "initialNextCharacterState
              = \<lparr>nextStringContext = stringContextOf OutsideString,
                 pairContext = pairContextOf 0 0 0\<rparr>"
    by (simp add: initialNextCharacterState_def initialPairContext_pairContextOf)
  show ?thesis
    using forLoop_nextCharacterBody_spec [OF assms, of includeChar startOffset OutsideString 0 0 0]
    unfolding getNextCharacterPosition_def Let_def init
    by (auto split: sum.splits option.splits)
qed

lemma pairBalance_Nil: "pairBalance targets opn cls [] = 0"
  by (simp add: pairBalance_def)

lemma pairBalance_Cons_target:
  "[c] \<in> set targets \<Longrightarrow>
   pairBalance targets opn cls (c # w) = pairBalance targets opn cls w"
  by (auto simp add: pairBalance_def)

lemma pairBalance_Cons_other:
  "[c] \<notin> set targets \<Longrightarrow>
   pairBalance targets opn cls (c # w)
     = pairBalance targets opn cls w + (if c = opn then 1 else 0) - (if c = cls then 1 else 0)"
  by (auto simp add: pairBalance_def)

lemma find_map_option: "find P (map f xs) = map_option f (find (\<lambda>x. P (f x)) xs)"
  by (induction xs) simp_all

lemma find_upt_Suc:
  "find P [0..<Suc n] = (if P 0 then Some 0 else map_option Suc (find (\<lambda>m. P (Suc m)) [0..<n]))"
proof -
  have "[0..<Suc n] = 0 # map Suc [0..<n]"
    by (simp add: upt_conv_Cons map_Suc_upt del: upt_Suc)
  then show ?thesis
    by (simp add: find_map_option del: upt_Suc)
qed

lemma specNextUnnested_find:
  assumes "list_all (\<lambda>c. c \<noteq> CHR 0x22 \<and> c \<noteq> CHR 0x27) w"
  shows "specNextUnnested targets w k OutsideString b1 b2 b3
         = map_option (\<lambda>n. k + n)
             (find (\<lambda>n. [w ! n] \<in> set targets
                         \<and> b1 + pairBalance targets CHR ''{'' CHR ''}'' (take n w) = 0
                         \<and> b2 + pairBalance targets CHR ''['' CHR '']'' (take n w) = 0
                         \<and> b3 + pairBalance targets CHR ''('' CHR '')'' (take n w) = 0)
                [0..<length w])"
  using assms
proof (induction w arbitrary: k b1 b2 b3)
  case Nil
  then show ?case by simp
next
  case (Cons c w)
  then have quotes: "c \<noteq> CHR 0x22" "c \<noteq> CHR 0x27"
    and rest: "list_all (\<lambda>c. c \<noteq> CHR 0x22 \<and> c \<noteq> CHR 0x27) w"
    by simp_all
  note ih = Cons.IH [OF rest, of "Suc k"]
  show ?case
  proof (cases "[c] \<in> set targets")
    case True
    then show ?thesis
      using quotes ih [of b1 b2 b3]
      by (simp add: find_upt_Suc pairBalance_Nil pairBalance_Cons_target option.map_comp
          comp_def del: upt_Suc)
  next
    case False
    then show ?thesis
      using quotes ih [of "b1 + 1" b2 b3] ih [of "b1 - 1" b2 b3] ih [of b1 "b2 + 1" b3]
        ih [of b1 "b2 - 1" b3] ih [of b1 b2 "b3 + 1"] ih [of b1 b2 "b3 - 1"] ih [of b1 b2 b3]
      by (simp add: find_upt_Suc pairBalance_Nil pairBalance_Cons_other option.map_comp
          comp_def algebra_simps del: upt_Suc)
  qed
qed

lemma specNextUnnested_unnestedTargetAt:
  assumes "list_all (\<lambda>c. c \<noteq> CHR 0x22 \<and> c \<noteq> CHR 0x27) w"
  shows "specNextUnnested targets w k OutsideString 0 0 0
         = map_option (\<lambda>n. k + n) (find (unnestedTargetAt targets w) [0..<length w])"
proof -
  have "unnestedTargetAt targets w
        = (\<lambda>n. [w ! n] \<in> set targets
                \<and> 0 + pairBalance targets CHR ''{'' CHR ''}'' (take n w) = 0
                \<and> 0 + pairBalance targets CHR ''['' CHR '']'' (take n w) = 0
                \<and> 0 + pairBalance targets CHR ''('' CHR '')'' (take n w) = 0)"
    by (simp add: fun_eq_iff unnestedTargetAt_def)
  then show ?thesis
    using specNextUnnested_find [OF assms, of targets k 0 0 0] by (simp only:)
qed

text \<open>
  Claim C5 as it is stated, at two inputs. In \<^verbatim>\<open>f(a, b(c, d), e)\<close>, scanned from just after
  \<^verbatim>\<open>f(\<close> for a comma, the first comma is at offset 3, after the one character \<^verbatim>\<open>a\<close>, and its
  position is that of offset 3; the call with the default \<^verbatim>\<open>includeChar\<close> returns the position
  after it. In \<^verbatim>\<open>a"b"c\<close>, scanned from its start for the double quote, the first quote is at
  offset 1, after the one character \<^verbatim>\<open>a\<close>; the call returns the position of \<^verbatim>\<open>endOffset\<close>,
  because a string delimiter opens a string before it is compared with the targets.
\<close>

theorem getNextCharacterPosition_position_counterexample:
  "take 1 (drop 2 argumentListText) = ''a''
   \<and> argumentListText ! 3 = CHR '',''
   \<and> positionAt argumentListText 3 = \<lparr>line = 0, character = 3\<rparr>
   \<and> getNextCharacterPosition
        \<lparr>document = argumentListText, sanitizedDocumentText = argumentListText\<rparr>
        2 16 (OneChar '','') True
      = \<lparr>line = 0, character = 4\<rparr>
   \<and> take 1 quotedText = ''a''
   \<and> quotedText ! 1 = CHR 0x22
   \<and> positionAt quotedText 1 = \<lparr>line = 0, character = 1\<rparr>
   \<and> getNextCharacterPosition \<lparr>document = quotedText, sanitizedDocumentText = quotedText\<rparr>
        0 5 (OneChar [CHR 0x22]) True
      = \<lparr>line = 0, character = 5\<rparr>"
  by code_simp

text \<open>
  Claim C5, with the position that the code returns: for a target string or a list of
  target strings, \<^verbatim>\<open>getNextCharacterPosition\<close> returns the position of the offset that the
  scan of the specification finds in the characters from \<^verbatim>\<open>startOffset\<close> up to \<^verbatim>\<open>endOffset\<close>,
  started outside a string with the three counts at zero, when \<^verbatim>\<open>includeChar\<close> is false, the
  position just after that offset when \<^verbatim>\<open>includeChar\<close> is true, and the position of
  \<^verbatim>\<open>endOffset\<close> when the scan finds none. When these characters hold no string delimiter,
  that offset is the one of the first of them that is a target with as many opening as
  closing braces, brackets and parentheses before it, the pair characters that are targets
  left out. This holds when \<^verbatim>\<open>endOffset\<close> is within the text or no target is the empty string.
\<close>

theorem getNextCharacterPosition_next_unnested_target:
  "(endOffset \<le> length (sanitizedDocumentText dsc) \<or> target \<noteq> [] \<longrightarrow>
      getNextCharacterPosition dsc startOffset endOffset (OneChar target) includeChar
      = (case specNextUnnested [target] (scannedText dsc startOffset endOffset)
                startOffset OutsideString 0 0 0 of
           Some k \<Rightarrow> positionAt (document dsc) (if includeChar then Suc k else k)
         | None \<Rightarrow> positionAt (document dsc) endOffset))
   \<and> (endOffset \<le> length (sanitizedDocumentText dsc) \<or> [] \<notin> set targets \<longrightarrow>
      getNextCharacterPosition dsc startOffset endOffset (ManyChars targets) includeChar
      = (case specNextUnnested targets (scannedText dsc startOffset endOffset)
                startOffset OutsideString 0 0 0 of
           Some k \<Rightarrow> positionAt (document dsc) (if includeChar then Suc k else k)
         | None \<Rightarrow> positionAt (document dsc) endOffset))
   \<and> ((endOffset \<le> length (sanitizedDocumentText dsc) \<or> target \<noteq> [])
       \<and> list_all (\<lambda>c. c \<noteq> CHR 0x22 \<and> c \<noteq> CHR 0x27) (scannedText dsc startOffset endOffset) \<longrightarrow>
      getNextCharacterPosition dsc startOffset endOffset (OneChar target) includeChar
      = (case find (unnestedTargetAt [target] (scannedText dsc startOffset endOffset))
                [0..<length (scannedText dsc startOffset endOffset)] of
           Some n \<Rightarrow> positionAt (document dsc)
                       (if includeChar then Suc (startOffset + n) else startOffset + n)
         | None \<Rightarrow> positionAt (document dsc) endOffset))
   \<and> ((endOffset \<le> length (sanitizedDocumentText dsc) \<or> [] \<notin> set targets)
       \<and> list_all (\<lambda>c. c \<noteq> CHR 0x22 \<and> c \<noteq> CHR 0x27) (scannedText dsc startOffset endOffset) \<longrightarrow>
      getNextCharacterPosition dsc startOffset endOffset (ManyChars targets) includeChar
      = (case find (unnestedTargetAt targets (scannedText dsc startOffset endOffset))
                [0..<length (scannedText dsc startOffset endOffset)] of
           Some n \<Rightarrow> positionAt (document dsc)
                       (if includeChar then Suc (startOffset + n) else startOffset + n)
         | None \<Rightarrow> positionAt (document dsc) endOffset))"
proof -
  let ?seg = "scannedText dsc startOffset endOffset"
  have spec: "getNextCharacterPosition dsc startOffset endOffset char includeChar
      = (case specNextUnnested (toSearchChar char) ?seg startOffset OutsideString 0 0 0 of
           Some k \<Rightarrow> positionAt (document dsc) (if includeChar then Suc k else k)
         | None \<Rightarrow> positionAt (document dsc) endOffset)"
    if "endOffset \<le> length (sanitizedDocumentText dsc) \<or> [] \<notin> set (toSearchChar char)"
    for char
    using getNextCharacterPosition_spec [OF that] by (simp add: scannedText_def)
  have decl: "getNextCharacterPosition dsc startOffset endOffset char includeChar
      = (case find (unnestedTargetAt (toSearchChar char) ?seg) [0..<length ?seg] of
           Some n \<Rightarrow> positionAt (document dsc)
                       (if includeChar then Suc (startOffset + n) else startOffset + n)
         | None \<Rightarrow> positionAt (document dsc) endOffset)"
    if "endOffset \<le> length (sanitizedDocumentText dsc) \<or> [] \<notin> set (toSearchChar char)"
      and "list_all (\<lambda>c. c \<noteq> CHR 0x22 \<and> c \<noteq> CHR 0x27) ?seg"
    for char
    using spec [OF that(1)]
      specNextUnnested_unnestedTargetAt [OF that(2), of "toSearchChar char" startOffset]
    by (simp split: option.splits)
  show ?thesis
    apply (intro conjI impI)
    subgoal using spec [of "OneChar target"] by auto
    subgoal using spec [of "ManyChars targets"] by auto
    subgoal using decl [of "OneChar target"] by auto
    subgoal using decl [of "ManyChars targets"] by auto
    done
qed

theorem getNextCharacterPosition_next_unnested_target_witness:
  "getNextCharacterPosition
      \<lparr>document = argumentListText, sanitizedDocumentText = argumentListText\<rparr>
      2 16 (OneChar '','') True
    = \<lparr>line = 0, character = 4\<rparr>
   \<and> getNextCharacterPosition
        \<lparr>document = argumentListText, sanitizedDocumentText = argumentListText\<rparr>
        4 16 (OneChar '','') False
      = \<lparr>line = 0, character = 12\<rparr>
   \<and> getNextCharacterPosition
        \<lparr>document = argumentListText, sanitizedDocumentText = argumentListText\<rparr>
        4 16 (OneChar '','') True
      = \<lparr>line = 0, character = 13\<rparr>
   \<and> getNextCharacterPosition
        \<lparr>document = argumentListText, sanitizedDocumentText = argumentListText\<rparr>
        13 16 (OneChar '','') True
      = \<lparr>line = 0, character = 16\<rparr>
   \<and> getNextCharacterPosition
        \<lparr>document = argumentListText, sanitizedDocumentText = argumentListText\<rparr>
        9 16 (ManyChars ['','', '')'']) False
      = \<lparr>line = 0, character = 11\<rparr>
   \<and> getNextCharacterPosition
        \<lparr>document = quotedCommaText, sanitizedDocumentText = quotedCommaText\<rparr>
        2 11 (OneChar '','') False
      = \<lparr>line = 0, character = 7\<rparr>
   \<and> getNextCharacterPosition
        \<lparr>document = quotedCommaText, sanitizedDocumentText = quotedCommaText\<rparr>
        2 40 (OneChar ''}'') True
      = \<lparr>line = 0, character = 11\<rparr>
   \<and> scannedText \<lparr>document = argumentListText, sanitizedDocumentText = argumentListText\<rparr> 4 16
      = '' b(c, d), e)''
   \<and> find (unnestedTargetAt ['',''] '' b(c, d), e)'') [0..<12] = Some 8"
proof -
  let ?args = "\<lparr>document = argumentListText, sanitizedDocumentText = argumentListText\<rparr>"
  let ?quoted = "\<lparr>document = quotedCommaText, sanitizedDocumentText = quotedCommaText\<rparr>"
  have seg: "scannedText ?args 4 16 = '' b(c, d), e)''"
    by (simp add: scannedText_def argumentListText_def)
  have found: "find (unnestedTargetAt ['',''] '' b(c, d), e)'') [0..<12] = Some 8"
    by code_simp
  have a: "getNextCharacterPosition ?args 2 16 (OneChar '','') True = \<lparr>line = 0, character = 4\<rparr>"
    using getNextCharacterPosition_next_unnested_target [of 16 ?args "'',''" 2 True]
    by (simp add: scannedText_def argumentListText_def positionAt_def NEW_LINE_def)
  have b: "getNextCharacterPosition ?args 4 16 (OneChar '','') False
           = \<lparr>line = 0, character = 12\<rparr>"
    using getNextCharacterPosition_next_unnested_target [of 16 ?args "'',''" 4 False]
      seg found
    by (simp add: argumentListText_def positionAt_def NEW_LINE_def)
  have c: "getNextCharacterPosition ?args 4 16 (OneChar '','') True
           = \<lparr>line = 0, character = 13\<rparr>"
    using getNextCharacterPosition_next_unnested_target [of 16 ?args "'',''" 4 True]
    by (simp add: scannedText_def argumentListText_def positionAt_def NEW_LINE_def)
  have d: "getNextCharacterPosition ?args 13 16 (OneChar '','') True
           = \<lparr>line = 0, character = 16\<rparr>"
    using getNextCharacterPosition_next_unnested_target [of 16 ?args "'',''" 13 True]
    by (simp add: scannedText_def argumentListText_def positionAt_def NEW_LINE_def)
  have e: "getNextCharacterPosition ?args 9 16 (ManyChars ['','', '')'']) False
           = \<lparr>line = 0, character = 11\<rparr>"
    using getNextCharacterPosition_next_unnested_target
      [of 16 ?args _ 9 False "['','', '')'']"]
    by (simp add: scannedText_def argumentListText_def positionAt_def NEW_LINE_def)
  have f: "getNextCharacterPosition ?quoted 2 11 (OneChar '','') False
           = \<lparr>line = 0, character = 7\<rparr>"
    using getNextCharacterPosition_next_unnested_target [of 11 ?quoted "'',''" 2 False]
    by (simp add: scannedText_def quotedCommaText_def positionAt_def NEW_LINE_def)
  have g: "getNextCharacterPosition ?quoted 2 40 (OneChar ''}'') True
           = \<lparr>line = 0, character = 11\<rparr>"
    using getNextCharacterPosition_next_unnested_target [of 40 ?quoted "''}''" 2 True]
    by (simp add: scannedText_def quotedCommaText_def positionAt_def NEW_LINE_def)
  from a b c d e f g seg found show ?thesis by simp
qed

section \<open>Results on comment ranges\<close>

text \<open>
  Claim C2 (in accurate mode a block comment ends exactly at its closing delimiter). In
  script mode the scan stores the line comment string, not the block comment pair, as the
  active comment of a block comment, so that the comment ends at the first character equal
  to the second character of the line comment string. With the rules \<^verbatim>\<open>//\<close>, \<^verbatim>\<open>/*\<close> and
  \<^verbatim>\<open>*/\<close>, the script text \<^verbatim>\<open>/* a/b */\<close>, whose only closing delimiter \<^verbatim>\<open>*/\<close> is at offset 7,
  gives the range from offset 0 to offset 5, which ends after the first \<^verbatim>\<open>/\<close> of the comment.
\<close>

theorem script_block_comment_ends_at_first_slash:
  "indexOf ''*/'' ''/* a/b */'' = Some 7
   \<and> getCommentRanges cfmlCommentRules (\<lambda>documentText. []) ''/* a/b */'' True None False
      = Inr [\<lparr>start = \<lparr>line = 0, character = 0\<rparr>, endp = \<lparr>line = 0, character = 5\<rparr>\<rparr>]
   \<and> commentContext
        (stateAt (iteratedBody cfmlCommentRules ''/* a/b */'' True) 0 initialIteratedState 2)
      = \<lparr>inComment = True, activeComment = Some (CommentString ''//''),
         commentType = Some Block, commentStart = Some \<lparr>line = 0, character = 0\<rparr>\<rparr>"
  by code_simp

end
